theory Spec2Isabelle
  imports Main
begin

section \<open>wmbusmeters: startup and oneshot coordination (\<^verbatim>\<open>src/main.cc\<close>)\<close>

text \<open>
  The development embeds \<^verbatim>\<open>startUsingCommandline\<close> and \<^verbatim>\<open>oneshotCheck\<close> of
  \<^verbatim>\<open>main.cc\<close>. The program acts on the outside world only (it logs, opens a device,
  registers callbacks, enters the event loop), so a run is modelled by the list of actions
  it performs, in order, together with the way it ends.

  The collaborators declared in \<^verbatim>\<open>cmdline.h\<close>, \<^verbatim>\<open>config.h\<close>, \<^verbatim>\<open>meters.h\<close>,
  \<^verbatim>\<open>printer.h\<close>, \<^verbatim>\<open>serial.h\<close>, \<^verbatim>\<open>util.h\<close> and \<^verbatim>\<open>wmbus.h\<close> are not part of
  \<^verbatim>\<open>main.cc\<close>. What they return is a parameter of the model (the record \<open>Env\<close>); the
  enumeration \<^verbatim>\<open>LinkMode\<close> is the type variable \<open>'lm\<close> and a telegram is the type
  variable \<open>'t\<close>.
\<close>

subsection \<open>Data\<close>

text \<open>The device kinds, as the \<^verbatim>\<open>switch\<close> of lines 168--208 lists them.\<close>

datatype MBusDeviceType =
    DEVICE_IM871A
  | DEVICE_AMB8465
  | DEVICE_SIMULATOR
  | DEVICE_RTLWMBUS
  | DEVICE_UNKNOWN

text \<open>The meter types, as the \<^verbatim>\<open>switch\<close> of lines 245--281 lists them.\<close>

datatype MeterType =
    MULTICAL21_METER
  | FLOWIQ3100_METER
  | MULTICAL302_METER
  | OMNIPOWER_METER
  | SUPERCOM587_METER
  | IPERL_METER
  | QCALORIC_METER
  | APATOR162_METER
  | UNKNOWN_METER

text \<open>The factories called in that \<^verbatim>\<open>switch\<close>.\<close>

datatype MeterFactory =
    createMultical21
  | createMultical302
  | createOmnipower
  | createSupercom587
  | createIperl
  | createQCaloric
  | createApator162

datatype MeterFileType = Overwrite | Append

text \<open>One configured meter quadruple (\<^verbatim>\<open>m.name\<close>, \<^verbatim>\<open>m.type\<close>, \<^verbatim>\<open>m.id\<close>, \<^verbatim>\<open>m.key\<close>).\<close>

record MeterInfo =
  name :: string
  type :: string
  id_m :: string
  key :: string

text \<open>The fields of \<^verbatim>\<open>Configuration\<close> that \<^verbatim>\<open>startUsingCommandline\<close> reads or writes.\<close>

record 'lm Configuration =
  use_logfile :: bool
  logfile :: string
  daemon :: bool
  silence :: bool
  verbose :: bool
  logtelegrams :: bool
  debug :: bool
  exitafter :: int
  meterfiles :: bool
  meterfiles_dir :: string
  meterfiles_action :: MeterFileType
  device :: string
  device_extra :: string
  meters :: "MeterInfo list"
  link_mode_set :: bool
  link_mode :: 'lm
  oneshot :: bool
  list_shell_envs :: bool
  json :: bool
  fields_c :: bool
  separator :: char
  shells :: "string list"

text \<open>
  The two closures given to \<^verbatim>\<open>onUpdate\<close> (lines 299 and 300) and the closure given to
  \<^verbatim>\<open>onTelegram\<close> (line 305).
\<close>

datatype UpdateCallback = OutputPrint | OneshotCheck

datatype TelegramCallback = TelegramPrint

text \<open>
  An entry of the local vector \<^verbatim>\<open>meters\<close>: the factory that built the meter and its
  arguments, with the state \<^verbatim>\<open>main.cc\<close> uses through \<^verbatim>\<open>numUpdates()\<close> and
  \<^verbatim>\<open>onUpdate(...)\<close>. The update count is a counter that starts at 0.
\<close>

record Meter =
  factory :: MeterFactory
  meter_name :: string
  meter_id :: string
  meter_key :: string
  numUpdates :: nat
  on_update :: "UpdateCallback list"

text \<open>Arguments of a \<^verbatim>\<open>printf\<close>-like call.\<close>

datatype arg = ArgS string | ArgD int

text \<open>The actions of a run.\<close>

datatype ('lm, 't) event =
    Verbose string "arg list"
  | Debug string
  | Warning string
  | Notice string
  | Error string "arg list"
  | Printf string "arg list"
  | EnableLogfile string bool
  | WarningSilenced bool
  | VerboseEnabled bool
  | LogTelegramsEnabled bool
  | DebugEnabled bool
  | CreateSerialCommunicationManager int
  | OnExit
  | DetectMBusDevice string MBusDeviceType string
  | OpenIM871A string
  | OpenAMB8465 string
  | OpenSimulator string
  | OpenRTLWMBUS string
  | Sleep nat
  | SetLinkMode 'lm
  | NewPrinter bool bool char bool string bool string "string list" bool
  | CreateMeter MeterFactory string string string
  | PrintMeter MeterFactory string
  | OnUpdate nat UpdateCallback
  | OnTelegram TelegramCallback
  | Simulate
  | WaitForStop
  | Stopped
  | Print 't string
  | PrintTelegram 't
  | DecryptionFailed 't string

text \<open>
  How a run ends before the function returns: \<^verbatim>\<open>exit(n)\<close>, or a call of \<^verbatim>\<open>error\<close>.
\<close>

datatype outcome = Exited int | Fatal string

datatype 'a step = Continue 'a | Terminate outcome

type_synonym ('e, 'a) proc = "'e list \<times> 'a step"

definition emit :: "'e list \<Rightarrow> 'a \<Rightarrow> ('e, 'a) proc" where
  "emit es x = (es, Continue x)"

definition exit_proc :: "int \<Rightarrow> ('e, 'a) proc" where
  "exit_proc n = ([], Terminate (Exited n))"

text \<open>
  Modelled from the spec: \<^verbatim>\<open>error\<close> is defined in \<^verbatim>\<open>util.cc\<close>, which is not among the
  sources. The specification calls the errors reported through it fatal (``Fatal at
  startup'', ``terminate before entering the event loop''), and line 279 relies on it:
  after \<^verbatim>\<open>error("No such meter type ...")\<close> the code would call
  \<^verbatim>\<open>meters.back()\<close> on a vector that may be empty. So \<open>error\<close> reports and ends the run.
\<close>

definition error :: "string \<Rightarrow> arg list \<Rightarrow> (('lm, 't) event, 'a) proc" where
  "error msg args = ([Error msg args], Terminate (Fatal msg))"

text \<open>Sequencing: what follows a terminated step does not happen.\<close>

definition bind_proc :: "('e, 'a) proc \<Rightarrow> ('a \<Rightarrow> ('e, 'b) proc) \<Rightarrow> ('e, 'b) proc" where
  "bind_proc p f =
     (case p of
        (tr, Terminate oc) \<Rightarrow> (tr, Terminate oc)
      | (tr, Continue a) \<Rightarrow> (case f a of (tr', r) \<Rightarrow> (tr @ tr', r)))"

text \<open>
  The collaborators of \<^verbatim>\<open>main.cc\<close>, as parameters: the functions it calls whose result
  it uses, the telegrams the device delivers, and (for the dispatch of a telegram, which
  lives in the meter and device classes) the matcher and the decryption of a meter.
\<close>

record ('lm, 't) Env =
  enableLogfile :: "string \<Rightarrow> bool \<Rightarrow> bool"
  detectMBusDevice :: "string \<Rightarrow> MBusDeviceType \<times> string"
  isFrequency :: "string \<Rightarrow> bool"
  toMeterLinkMode :: "string \<Rightarrow> 'lm"
  toMeterType :: "string \<Rightarrow> MeterType"
  getLinkMode :: "MBusDeviceType \<Rightarrow> 'lm \<Rightarrow> 'lm"
  linkModeName :: "'lm \<Rightarrow> string"
  printMeter :: "MeterFactory \<Rightarrow> string \<Rightarrow> string list"
  isTelegramForMe :: "MeterFactory \<Rightarrow> string \<Rightarrow> 't \<Rightarrow> bool"
  decrypt :: "MeterFactory \<Rightarrow> string \<Rightarrow> 't \<Rightarrow> 't option"
  telegrams :: "'t list"
  WMBUSMETERS_VERSION :: string

subsection \<open>\<^verbatim>\<open>oneshotCheck\<close> (lines 323--333)\<close>

text \<open>
  The loop of lines 327--329: it leaves the function at the first meter whose update count
  is 0. \<open>all_updated\<close> says whether the loop runs to its end.
\<close>

fun all_updated :: "Meter list \<Rightarrow> bool" where
  "all_updated [] = True"
| "all_updated (m # ms) = (if numUpdates m = 0 then False else all_updated ms)"

text \<open>
  The function itself. It returns what it does: nothing, or the \<^verbatim>\<open>verbose\<close> line
  followed by \<^verbatim>\<open>manager->stop()\<close>.
\<close>

definition oneshotCheck :: "'lm Configuration \<Rightarrow> Meter list \<Rightarrow> ('lm, 't) event list" where
  "oneshotCheck config ms =
     (if \<not> oneshot config then []
      else if \<not> all_updated ms then []
      else [Verbose ''(main) all meters have received at least one update, stopping.\<newline>'' [],
            Stopped])"

subsection \<open>\<^verbatim>\<open>startUsingCommandline\<close> (lines 126--321)\<close>

text \<open>Lines 128--138: the log file.\<close>

definition setup_logfile ::
  "('lm, 't) Env \<Rightarrow> 'lm Configuration \<Rightarrow> (('lm, 't) event, unit) proc" where
  "setup_logfile env config =
     (if use_logfile config then
        bind_proc (emit [Verbose ''(wmbusmeters) using log file %s\<newline>''
                           [ArgS (logfile config)]] ())
          (\<lambda>_. let ok = enableLogfile env (logfile config) (daemon config) in
             bind_proc (emit [EnableLogfile (logfile config) (daemon config)] ())
               (\<lambda>_. if \<not> ok then
                       (if daemon config then
                          emit [Warning
                            ''Could not open log file, will use syslog instead.\<newline>''] ()
                        else error ''Could not open log file.\<newline>'' [])
                     else emit [] ()))
      else emit [] ())"

text \<open>Lines 140--162: the logging switches, the configuration summary, the manager.\<close>

definition setup_logging ::
  "('lm, 't) Env \<Rightarrow> 'lm Configuration \<Rightarrow> ('lm, 't) event list" where
  "setup_logging env config =
     [WarningSilenced (silence config), VerboseEnabled (verbose config),
      LogTelegramsEnabled (logtelegrams config), DebugEnabled (debug config),
      Debug (''(wmbusmeters) version: '' @ WMBUSMETERS_VERSION env @ ''\<newline>'')] @
     (if exitafter config \<noteq> 0 then
        [Verbose ''(config) wmbusmeters will exit after %d seconds\<newline>''
           [ArgD (exitafter config)]]
      else []) @
     (if meterfiles config then
        [Verbose (''(config) store meter files in: '' @ [CHR 0x22] @ ''%s'' @ [CHR 0x22]
                    @ ''\<newline>'')
           [ArgS (meterfiles_dir config)]]
      else []) @
     [Verbose ''(config) using device: %s\<newline>'' [ArgS (device config)]] @
     (if length (device_extra config) > 0 then
        [Verbose ''(config) with: %s\<newline>'' [ArgS (device_extra config)]]
      else []) @
     [Verbose ''(config) number of meters: %d\<newline>''
        [ArgD (int (length (meters config)))],
      CreateSerialCommunicationManager (exitafter config),
      OnExit]"

text \<open>Lines 183--195: the command line given to \<^verbatim>\<open>openRTLWMBUS\<close>.\<close>

definition rtlwmbus_command :: "('lm, 't) Env \<Rightarrow> 'lm Configuration \<Rightarrow> string" where
  "rtlwmbus_command env config =
     (let is_freq = isFrequency env (device_extra config);
          freq = (if is_freq then device_extra config else ''868.95M'');
          command = (if is_freq then [] else device_extra config);
          prefix = (if daemon config then ''/usr/bin/'' else [])
      in if command = [] then
           prefix @ ''rtl_sdr -f '' @ freq @ '' -s 16000000 - 2>/dev/null | '' @ prefix
             @ ''rtl_wmbus''
         else command)"

text \<open>
  Lines 166--208: detection and opening of the device. The result is the detected kind,
  which the rest of the function reads as \<^verbatim>\<open>type_and_device.first\<close>.
\<close>

definition open_device ::
  "('lm, 't) Env \<Rightarrow> 'lm Configuration \<Rightarrow> (('lm, 't) event, MBusDeviceType) proc" where
  "open_device env config =
     (case detectMBusDevice env (device config) of
        (ty, path) \<Rightarrow>
          bind_proc (emit [DetectMBusDevice (device config) ty path] ())
            (\<lambda>_. case ty of
               DEVICE_IM871A \<Rightarrow>
                 emit [Verbose ''(im871a) detected on %s\<newline>'' [ArgS path],
                       OpenIM871A path] ty
             | DEVICE_AMB8465 \<Rightarrow>
                 emit [Verbose ''(amb8465) detected on %s\<newline>'' [ArgS path],
                       OpenAMB8465 path] ty
             | DEVICE_SIMULATOR \<Rightarrow>
                 emit [Verbose ''(simulator) found %s\<newline>'' [ArgS path],
                       OpenSimulator path] ty
             | DEVICE_RTLWMBUS \<Rightarrow>
                 (let command = rtlwmbus_command env config
                  in emit [Verbose ''(rtlwmbus) using command: %s\<newline>'' [ArgS command],
                           OpenRTLWMBUS command] ty)
             | DEVICE_UNKNOWN \<Rightarrow>
                 bind_proc (emit [Warning ''No wmbus device found! Exiting!\<newline>''] ())
                   (\<lambda>_. bind_proc (if daemon config then emit [Sleep 1] ()
                                     else emit [] ())
                     (\<lambda>_. exit_proc 1))))"

text \<open>
  Lines 213--223: the loop over \<^verbatim>\<open>config->meters\<close> that infers the link mode. It
  writes \<^verbatim>\<open>config->link_mode\<close> and \<^verbatim>\<open>config->link_mode_set\<close>, so the configuration is
  passed along and returned.
\<close>

fun infer_loop ::
  "('lm, 't) Env \<Rightarrow> MBusDeviceType \<Rightarrow> 'lm Configuration \<Rightarrow> MeterInfo list
     \<Rightarrow> (('lm, 't) event, 'lm Configuration) proc" where
  "infer_loop env dev config [] = emit [] config"
| "infer_loop env dev config (m # ms) =
     (if \<not> link_mode_set config then
        infer_loop env dev
          (config\<lparr>link_mode := toMeterLinkMode env (type m), link_mode_set := True\<rparr>) ms
      else if link_mode config \<noteq> toMeterLinkMode env (type m) \<and> dev \<noteq> DEVICE_RTLWMBUS then
        error ''A different link mode has been set already.\<newline>'' []
      else infer_loop env dev config ms)"

text \<open>Lines 210--224.\<close>

definition infer_link_mode ::
  "('lm, 't) Env \<Rightarrow> MBusDeviceType \<Rightarrow> 'lm Configuration
     \<Rightarrow> (('lm, 't) event, 'lm Configuration) proc" where
  "infer_link_mode env dev config =
     (if \<not> link_mode_set config then infer_loop env dev config (meters config)
      else emit [] config)"

text \<open>Lines 225--229.\<close>

definition require_link_mode ::
  "MBusDeviceType \<Rightarrow> 'lm Configuration \<Rightarrow> (('lm, 't) event, unit) proc" where
  "require_link_mode dev config =
     (if \<not> link_mode_set config \<and> dev \<noteq> DEVICE_RTLWMBUS \<and> dev \<noteq> DEVICE_SIMULATOR then
        error ''If you specify no meters, you have to specify the link mode: --c1 or --t1\<newline>''
          []
      else emit [] ())"

text \<open>Lines 230--239: the link mode is applied, the printer is made.\<close>

definition apply_link_mode ::
  "('lm, 't) Env \<Rightarrow> MBusDeviceType \<Rightarrow> 'lm Configuration \<Rightarrow> ('lm, 't) event list" where
  "apply_link_mode env dev config =
     (let using_link_mode = linkModeName env (getLinkMode env dev (link_mode config))
      in [SetLinkMode (link_mode config),
          Verbose ''(config) using link mode: %s\<newline>'' [ArgS using_link_mode],
          NewPrinter (json config) (fields_c config) (separator config) (meterfiles config)
            (meterfiles_dir config) (use_logfile config) (logfile config) (shells config)
            (meterfiles_action config = Overwrite)])"

text \<open>
  Lines 245--281: the factory each meter type is built with and the name the
  \<^verbatim>\<open>verbose\<close> line prints; \<open>None\<close> is the case \<^verbatim>\<open>UNKNOWN_METER\<close>.
\<close>

fun meter_case :: "MeterType \<Rightarrow> (MeterFactory \<times> string) option" where
  "meter_case MULTICAL21_METER = Some (createMultical21, ''multical21'')"
| "meter_case FLOWIQ3100_METER = Some (createMultical21, ''flowiq3100'')"
| "meter_case MULTICAL302_METER = Some (createMultical302, ''multical302'')"
| "meter_case OMNIPOWER_METER = Some (createOmnipower, ''omnipower'')"
| "meter_case SUPERCOM587_METER = Some (createSupercom587, ''supercom587'')"
| "meter_case IPERL_METER = Some (createIperl, ''iperl'')"
| "meter_case QCALORIC_METER = Some (createQCaloric, ''qcaloric'')"
| "meter_case APATOR162_METER = Some (createApator162, ''apator162'')"
| "meter_case UNKNOWN_METER = None"

text \<open>A meter as its factory returns it: no update yet, no callback yet.\<close>

definition new_meter :: "MeterFactory \<Rightarrow> MeterInfo \<Rightarrow> Meter" where
  "new_meter f m =
     \<lparr>factory = f, meter_name = name m, meter_id = id_m m, meter_key = key m,
      numUpdates = 0, on_update = []\<rparr>"

text \<open>Line 244: \<^verbatim>\<open>m.key[0] == 0\<close> holds for the empty key.\<close>

definition keymsg :: "string \<Rightarrow> string" where
  "keymsg k =
     (case k of
        [] \<Rightarrow> ''not-encrypted''
      | c # _ \<Rightarrow> if c = CHR 0x00 then ''not-encrypted'' else ''encrypted'')"

definition configured_msg :: "string \<Rightarrow> string" where
  "configured_msg tag =
     ''('' @ tag @ '') configured '' @ [CHR 0x22] @ ''%s'' @ [CHR 0x22] @ '' '' @ [CHR 0x22]
       @ tag @ [CHR 0x22] @ '' '' @ [CHR 0x22] @ ''%s'' @ [CHR 0x22] @ '' %s\<newline>''"

text \<open>Lines 245--281: one meter is built and pushed on the vector, or the type is unknown.\<close>

definition create_meter ::
  "('lm, 't) Env \<Rightarrow> Meter list \<Rightarrow> MeterInfo \<Rightarrow> (('lm, 't) event, Meter list) proc" where
  "create_meter env mv m =
     (case meter_case (toMeterType env (type m)) of
        Some (f, tag) \<Rightarrow>
          emit [CreateMeter f (name m) (id_m m) (key m),
                Verbose (configured_msg tag)
                  [ArgS (name m), ArgS (id_m m), ArgS (keymsg (key m))]]
            (mv @ [new_meter f m])
      | None \<Rightarrow>
          error (''No such meter type '' @ [CHR 0x22] @ ''%s'' @ [CHR 0x22] @ ''\<newline>'')
            [ArgS (type m)])"

text \<open>
  Lines 282--298: with \<^verbatim>\<open>list_shell_envs\<close> the names of the environment variables
  of the meter just built are printed (each up to its \<^verbatim>\<open>=\<close>, or whole when it has
  none) and the program exits with code 0.
\<close>

definition list_envs ::
  "('lm, 't) Env \<Rightarrow> 'lm Configuration \<Rightarrow> Meter list \<Rightarrow> MeterInfo
     \<Rightarrow> (('lm, 't) event, unit) proc" where
  "list_envs env config mv m =
     (if list_shell_envs config then
        (let b = last mv;
             envs = printMeter env (factory b) (meter_name b)
         in bind_proc
              (emit ([PrintMeter (factory b) (meter_name b),
                      Printf ''Environment variables provided to shell for meter %s:\<newline>''
                        [ArgS (type m)]]
                     @ map (\<lambda>e. Printf ''%s\<newline>'' [ArgS (takeWhile (\<lambda>c. c \<noteq> CHR ''='') e)])
                         envs) ())
              (\<lambda>_. exit_proc 0))
      else emit [] ())"

text \<open>
  Lines 299--300: the two update callbacks of the meter just built, in this order. The meter
  is \<^verbatim>\<open>meters.back()\<close>; the vector is not empty here, the meter has just been pushed.
\<close>

definition register_callbacks :: "Meter list \<Rightarrow> (('lm, 't) event, Meter list) proc" where
  "register_callbacks mv =
     (let b = last mv
      in emit [OnUpdate (length mv - 1) OutputPrint, OnUpdate (length mv - 1) OneshotCheck]
           (butlast mv @ [b\<lparr>on_update := on_update b @ [OutputPrint, OneshotCheck]\<rparr>]))"

text \<open>Lines 243--301: the body of the loop over \<^verbatim>\<open>config->meters\<close>.\<close>

definition add_meter ::
  "('lm, 't) Env \<Rightarrow> 'lm Configuration \<Rightarrow> Meter list \<Rightarrow> MeterInfo
     \<Rightarrow> (('lm, 't) event, Meter list) proc" where
  "add_meter env config mv m =
     bind_proc (create_meter env mv m)
       (\<lambda>mv'. bind_proc (list_envs env config mv' m)
         (\<lambda>_. register_callbacks mv'))"

text \<open>A loop whose body may end the run.\<close>

primrec fold_proc :: "('a \<Rightarrow> 'b \<Rightarrow> ('e, 'a) proc) \<Rightarrow> 'b list \<Rightarrow> 'a \<Rightarrow> ('e, 'a) proc" where
  "fold_proc f [] a = emit [] a"
| "fold_proc f (x # xs) a = bind_proc (f a x) (fold_proc f xs)"

text \<open>
  Lines 240--306: the meters are built, or, without meters, the telegram callback is
  registered on the device. The result is the vector \<^verbatim>\<open>meters\<close> and the callbacks
  registered with \<^verbatim>\<open>wmbus->onTelegram\<close>.
\<close>

definition configure_meters ::
  "('lm, 't) Env \<Rightarrow> 'lm Configuration
     \<Rightarrow> (('lm, 't) event, Meter list \<times> TelegramCallback list) proc" where
  "configure_meters env config =
     (if length (meters config) > 0 then
        bind_proc (fold_proc (add_meter env config) (meters config) [])
          (\<lambda>mv. emit [] (mv, []))
      else
        emit [Notice ''No meters configured. Printing id:s of all telegrams heard!\<newline>\<newline>'',
              OnTelegram TelegramPrint] ([], [TelegramPrint]))"

subsection \<open>Telegrams at run time\<close>

text \<open>
  What is there while telegrams arrive: the vector \<^verbatim>\<open>meters\<close> (the closures of lines
  299--300 hold a reference to it), the callbacks registered on the device, and whether
  \<^verbatim>\<open>manager->stop()\<close> has been called.
\<close>

record Runtime =
  rt_meters :: "Meter list"
  rt_listeners :: "TelegramCallback list"
  rt_stopped :: bool

text \<open>
  The bodies of the closures of lines 299, 300 and 305, run for meter \<open>i\<close> and telegram
  \<open>t\<close>: \<^verbatim>\<open>output->print(t, meter)\<close>, \<^verbatim>\<open>oneshotCheck(config, manager, t, meter, meters)\<close>
  and \<^verbatim>\<open>t->print()\<close>.
\<close>

fun run_update ::
  "'lm Configuration \<Rightarrow> 't \<Rightarrow> nat \<Rightarrow> Runtime \<times> ('lm, 't) event list \<Rightarrow> UpdateCallback
     \<Rightarrow> Runtime \<times> ('lm, 't) event list" where
  "run_update config t i (st, tr) OutputPrint =
     (st, tr @ [Print t (meter_name (rt_meters st ! i))])"
| "run_update config t i (st, tr) OneshotCheck =
     (let es = oneshotCheck config (rt_meters st)
      in (st\<lparr>rt_stopped := rt_stopped st \<or> Stopped \<in> set es\<rparr>, tr @ es))"

fun run_listener :: "'t \<Rightarrow> TelegramCallback \<Rightarrow> ('lm, 't) event" where
  "run_listener t TelegramPrint = PrintTelegram t"

text \<open>
  Modelled from the spec: the meter classes (\<^verbatim>\<open>meters.h\<close> and the files behind it) are
  not among the sources. ``On handle, the meter's update count is incremented and all
  registered update callbacks are invoked in registration order.''
\<close>

definition triggerUpdate ::
  "'lm Configuration \<Rightarrow> nat \<Rightarrow> 't \<Rightarrow> Runtime \<Rightarrow> Runtime \<times> ('lm, 't) event list" where
  "triggerUpdate config i t st =
     (let m = rt_meters st ! i;
          st' = st\<lparr>rt_meters := (rt_meters st)[i := m\<lparr>numUpdates := Suc (numUpdates m)\<rparr>]\<rparr>
      in foldl (run_update config t i) (st', []) (on_update m))"

text \<open>
  Modelled from the spec: decryption is not among the sources. ``DecryptionFailed: key
  wrong or absent. Logged; telegram is dropped; the meter's update count is not
  incremented.'' The parameter \<open>decrypt\<close> gives \<open>None\<close> when decryption with the key of
  the meter fails.
\<close>

definition handleTelegram ::
  "('lm, 't) Env \<Rightarrow> 'lm Configuration \<Rightarrow> nat \<Rightarrow> 't \<Rightarrow> Runtime
     \<Rightarrow> Runtime \<times> ('lm, 't) event list" where
  "handleTelegram env config i t st =
     (let m = rt_meters st ! i
      in case decrypt env (factory m) (meter_key m) t of
           None \<Rightarrow> (st, [DecryptionFailed t (meter_name m)])
         | Some t' \<Rightarrow> triggerUpdate config i t' st)"

text \<open>
  Modelled from the spec: ``Iterates meter instances in insertion order; the first matching
  meter handles the telegram.'' The result is the index of that meter.
\<close>

fun find_meter :: "('lm, 't) Env \<Rightarrow> Meter list \<Rightarrow> 't \<Rightarrow> nat option" where
  "find_meter env [] t = None"
| "find_meter env (m # ms) t =
     (if isTelegramForMe env (factory m) (meter_id m) t then Some 0
      else map_option Suc (find_meter env ms t))"

text \<open>
  Modelled from the spec: the dispatch of a telegram by the device classes
  (\<^verbatim>\<open>wmbus.h\<close>), which are not among the sources. ``If no meter matches and no meters
  are configured at all, the controller invokes a debug-print callback that logs the id and
  manufacturer of the telegram (discovery mode).''
\<close>

definition dispatch ::
  "('lm, 't) Env \<Rightarrow> 'lm Configuration \<Rightarrow> 't \<Rightarrow> Runtime \<Rightarrow> Runtime \<times> ('lm, 't) event list" where
  "dispatch env config t st =
     (case find_meter env (rt_meters st) t of
        Some i \<Rightarrow> handleTelegram env config i t st
      | None \<Rightarrow>
          if rt_meters st = [] then (st, map (run_listener t) (rt_listeners st))
          else (st, []))"

text \<open>
  Modelled from the spec: the event loop of the serial manager (\<^verbatim>\<open>serial.h\<close>), which
  is not among the sources. ``Within one endpoint, telegrams are delivered in arrival
  order.'' ``In-flight callbacks for the current telegram complete before stop takes
  effect; no further telegrams are dispatched.''
\<close>

fun event_loop ::
  "('lm, 't) Env \<Rightarrow> 'lm Configuration \<Rightarrow> 't list \<Rightarrow> Runtime \<Rightarrow> Runtime \<times> ('lm, 't) event list" where
  "event_loop env config [] st = (st, [])"
| "event_loop env config (t # ts) st =
     (if rt_stopped st then (st, [])
      else (case dispatch env config t st of
              (st', tr) \<Rightarrow> (case event_loop env config ts st' of
                             (st'', tr') \<Rightarrow> (st'', tr @ tr'))))"

text \<open>
  Lines 308--320. The simulator delivers its telegrams inside \<^verbatim>\<open>simulate()\<close>, every
  other device while \<^verbatim>\<open>waitForStop()\<close> waits.
\<close>

definition run_device ::
  "('lm, 't) Env \<Rightarrow> MBusDeviceType \<Rightarrow> 'lm Configuration \<Rightarrow> Meter list \<times> TelegramCallback list
     \<Rightarrow> ('lm, 't) event list" where
  "run_device env dev config ml =
     (let st = \<lparr>rt_meters = fst ml, rt_listeners = snd ml, rt_stopped = False\<rparr>;
          received = snd (event_loop env config (telegrams env) st)
      in (if dev = DEVICE_SIMULATOR then Simulate # received else [])
         @ (if daemon config then [Notice ''(wmbusmeters) waiting for telegrams\<newline>'']
            else [])
         @ [WaitForStop]
         @ (if dev = DEVICE_SIMULATOR then [] else received)
         @ (if daemon config then [Notice ''(wmbusmeters) shutting down\<newline>''] else []))"

text \<open>Lines 210--229: the link mode is inferred from the meters, or must have been given.\<close>

definition select_link_mode ::
  "('lm, 't) Env \<Rightarrow> MBusDeviceType \<Rightarrow> 'lm Configuration
     \<Rightarrow> (('lm, 't) event, 'lm Configuration) proc" where
  "select_link_mode env dev config =
     bind_proc (infer_link_mode env dev config)
       (\<lambda>config. bind_proc (require_link_mode dev config)
       (\<lambda>_. emit [] config))"

text \<open>Lines 230--321: the link mode is applied, the meters are built, telegrams are awaited.\<close>

definition listen ::
  "('lm, 't) Env \<Rightarrow> MBusDeviceType \<Rightarrow> 'lm Configuration \<Rightarrow> (('lm, 't) event, unit) proc" where
  "listen env dev config =
     bind_proc (emit (apply_link_mode env dev config) ())
       (\<lambda>_. bind_proc (configure_meters env config)
       (\<lambda>ml. emit (run_device env dev config ml) ()))"

text \<open>The function, lines 126--321.\<close>

definition startUsingCommandline ::
  "('lm, 't) Env \<Rightarrow> 'lm Configuration \<Rightarrow> (('lm, 't) event, unit) proc" where
  "startUsingCommandline env config =
     bind_proc (setup_logfile env config)
       (\<lambda>_. bind_proc (emit (setup_logging env config) ())
       (\<lambda>_. bind_proc (open_device env config)
       (\<lambda>dev. bind_proc (select_link_mode env dev config)
       (\<lambda>config. listen env dev config))))"

text \<open>The actions of a run and its end.\<close>

definition trace :: "('lm, 't) Env \<Rightarrow> 'lm Configuration \<Rightarrow> ('lm, 't) event list" where
  "trace env config = fst (startUsingCommandline env config)"

definition result :: "('lm, 't) Env \<Rightarrow> 'lm Configuration \<Rightarrow> unit step" where
  "result env config = snd (startUsingCommandline env config)"

subsection \<open>Kinds of actions\<close>

text \<open>
  Three classes of actions, used to say which part of a run an action can come from:
  reporting and device set-up, the building of the meters, and the handling of telegrams.
\<close>

definition quiet :: "('lm, 't) event \<Rightarrow> bool" where
  "quiet e =
     (case e of
        DetectMBusDevice _ _ _ \<Rightarrow> False
      | SetLinkMode _ \<Rightarrow> False
      | CreateMeter _ _ _ _ \<Rightarrow> False
      | PrintMeter _ _ \<Rightarrow> False
      | OnUpdate _ _ \<Rightarrow> False
      | OnTelegram _ \<Rightarrow> False
      | Simulate \<Rightarrow> False
      | WaitForStop \<Rightarrow> False
      | Stopped \<Rightarrow> False
      | Print _ _ \<Rightarrow> False
      | PrintTelegram _ \<Rightarrow> False
      | DecryptionFailed _ _ \<Rightarrow> False
      | _ \<Rightarrow> True)"

definition meter_setup :: "('lm, 't) event \<Rightarrow> bool" where
  "meter_setup e =
     (case e of
        CreateMeter _ _ _ _ \<Rightarrow> True
      | PrintMeter _ _ \<Rightarrow> True
      | OnUpdate _ _ \<Rightarrow> True
      | OnTelegram _ \<Rightarrow> True
      | _ \<Rightarrow> quiet e)"

definition at_run_time :: "('lm, 't) event \<Rightarrow> bool" where
  "at_run_time e =
     (case e of
        Simulate \<Rightarrow> True
      | WaitForStop \<Rightarrow> True
      | Stopped \<Rightarrow> True
      | Print _ _ \<Rightarrow> True
      | PrintTelegram _ \<Rightarrow> True
      | DecryptionFailed _ _ \<Rightarrow> True
      | Verbose _ _ \<Rightarrow> True
      | Notice _ \<Rightarrow> True
      | _ \<Rightarrow> False)"

text \<open>The lines printed by the telegram callback of line 305.\<close>

definition id_print :: "('lm, 't) event \<Rightarrow> bool" where
  "id_print e = (case e of PrintTelegram _ \<Rightarrow> True | _ \<Rightarrow> False)"

subsection \<open>Example runs\<close>

text \<open>
  A small instance used to run the model: a link mode type, an environment in which three
  device names are recognised and a telegram is the id of its sender, and a configuration
  with a given device and meter list.
\<close>

datatype LinkMode = C1 | T1 | ANY

definition example_env :: "string list \<Rightarrow> (LinkMode, string) Env" where
  "example_env ts =
     \<lparr>enableLogfile = (\<lambda>f d. True),
      detectMBusDevice =
        (\<lambda>d. if d = ''/dev/ttyUSB0'' then (DEVICE_IM871A, d)
              else if d = ''rtlwmbus'' then (DEVICE_RTLWMBUS, d)
              else if d = ''simulation.txt'' then (DEVICE_SIMULATOR, d)
              else (DEVICE_UNKNOWN, d)),
      isFrequency = (\<lambda>s. False),
      toMeterLinkMode = (\<lambda>ty. if ty = ''multical21'' \<or> ty = ''flowiq3100'' then C1 else T1),
      toMeterType =
        (\<lambda>ty. if ty = ''multical21'' then MULTICAL21_METER
               else if ty = ''flowiq3100'' then FLOWIQ3100_METER
               else if ty = ''supercom587'' then SUPERCOM587_METER
               else UNKNOWN_METER),
      getLinkMode = (\<lambda>d lm. lm),
      linkModeName = (\<lambda>lm. case lm of C1 \<Rightarrow> ''c1'' | T1 \<Rightarrow> ''t1'' | ANY \<Rightarrow> ''any''),
      printMeter = (\<lambda>f n. []),
      isTelegramForMe = (\<lambda>f i t. t = i),
      decrypt = (\<lambda>f k t. if k = ''wrong'' then None else Some t),
      telegrams = ts,
      WMBUSMETERS_VERSION = ''0.0''\<rparr>"

definition example_config :: "string \<Rightarrow> MeterInfo list \<Rightarrow> LinkMode Configuration" where
  "example_config dev ms =
     \<lparr>use_logfile = False, logfile = [], daemon = False, silence = False, verbose = False,
      logtelegrams = False, debug = False, exitafter = 0, meterfiles = False,
      meterfiles_dir = [], meterfiles_action = Overwrite, device = dev, device_extra = [],
      meters = ms, link_mode_set = False, link_mode = ANY, oneshot = True,
      list_shell_envs = False, json = False, fields_c = False, separator = CHR '';'',
      shells = []\<rparr>"

definition water :: MeterInfo where
  "water = \<lparr>name = ''water'', type = ''multical21'', id_m = ''12345678'', key = []\<rparr>"

definition heat :: MeterInfo where
  "heat = \<lparr>name = ''heat'', type = ''supercom587'', id_m = ''87654321'', key = []\<rparr>"

definition gas :: MeterInfo where
  "gas = \<lparr>name = ''gas'', type = ''gasmeter'', id_m = ''11112222'', key = []\<rparr>"

definition flow :: MeterInfo where
  "flow = \<lparr>name = ''water'', type = ''flowiq3100'', id_m = ''12345678'', key = []\<rparr>"

definition locked :: MeterInfo where
  "locked = \<lparr>name = ''locked'', type = ''multical21'', id_m = ''33334444'', key = ''wrong''\<rparr>"

definition example_runtime :: "MeterInfo list \<Rightarrow> Runtime" where
  "example_runtime ms =
     \<lparr>rt_meters =
        map (\<lambda>m. (new_meter createMultical21 m)\<lparr>on_update := [OutputPrint, OneshotCheck]\<rparr>) ms,
      rt_listeners = [], rt_stopped = False\<rparr>"

definition updated_meter :: "nat \<Rightarrow> Meter" where
  "updated_meter n = (new_meter createMultical21 water)\<lparr>numUpdates := n\<rparr>"

section \<open>Properties\<close>

subsection \<open>Sequencing, log file, device\<close>

lemma fst_bind_proc:
  "fst (bind_proc p f) = fst p @ (case snd p of Continue a \<Rightarrow> fst (f a) | Terminate oc \<Rightarrow> [])"
  by (cases p) (auto simp: bind_proc_def split: step.splits prod.splits)

lemma snd_bind_proc:
  "snd (bind_proc p f) = (case snd p of Continue a \<Rightarrow> snd (f a) | Terminate oc \<Rightarrow> Terminate oc)"
  by (cases p) (auto simp: bind_proc_def split: step.splits prod.splits)

lemma fst_emit [simp]: "fst (emit es x) = es"
  and snd_emit [simp]: "snd (emit es x) = Continue x"
  by (simp_all add: emit_def)

lemma fst_error [simp]: "fst (error msg args) = [Error msg args]"
  and snd_error [simp]: "snd (error msg args) = Terminate (Fatal msg)"
  by (simp_all add: error_def)

lemma fst_exit_proc [simp]: "fst (exit_proc n) = []"
  and snd_exit_proc [simp]: "snd (exit_proc n) = Terminate (Exited n)"
  by (simp_all add: exit_proc_def)

lemma all_updated_iff: "all_updated ms \<longleftrightarrow> (\<forall>m \<in> set ms. 1 \<le> numUpdates m)"
  by (induction ms) auto

lemma setup_logfile_quiet: "e \<in> set (fst (setup_logfile env config)) \<Longrightarrow> quiet e"
  by (auto simp: setup_logfile_def fst_bind_proc Let_def quiet_def split: if_splits)

lemma setup_logfile_result:
  "snd (setup_logfile env config) =
     (if use_logfile config \<and> \<not> enableLogfile env (logfile config) (daemon config)
         \<and> \<not> daemon config
      then Terminate (Fatal ''Could not open log file.\<newline>'') else Continue ())"
  by (cases "daemon config") (simp_all add: setup_logfile_def snd_bind_proc Let_def)

lemma setup_logging_quiet: "e \<in> set (setup_logging env config) \<Longrightarrow> quiet e"
  by (auto simp: setup_logging_def quiet_def split: if_splits)

lemma open_device_result:
  "snd (open_device env config) =
     (if fst (detectMBusDevice env (device config)) = DEVICE_UNKNOWN then Terminate (Exited 1)
      else Continue (fst (detectMBusDevice env (device config))))"
  by (simp add: open_device_def snd_bind_proc Let_def split: prod.splits MBusDeviceType.splits)

lemma open_device_trace:
  "\<exists>tr. fst (open_device env config) =
     DetectMBusDevice (device config) (fst (detectMBusDevice env (device config)))
       (snd (detectMBusDevice env (device config))) # tr \<and> (\<forall>e \<in> set tr. quiet e)"
  by (auto simp: open_device_def fst_bind_proc Let_def quiet_def split: prod.splits MBusDeviceType.splits)

lemma open_device_unknown:
  "fst (detectMBusDevice env (device config)) = DEVICE_UNKNOWN \<Longrightarrow>
   fst (open_device env config) =
     [DetectMBusDevice (device config) DEVICE_UNKNOWN (snd (detectMBusDevice env (device config))),
      Warning ''No wmbus device found! Exiting!\<newline>''] @ (if daemon config then [Sleep 1] else [])"
  by (auto simp: open_device_def fst_bind_proc Let_def split: prod.splits MBusDeviceType.splits)

subsection \<open>The link mode\<close>

lemma infer_loop_set:
  "link_mode_set c \<Longrightarrow>
   infer_loop env d c ms =
     (if d \<noteq> DEVICE_RTLWMBUS \<and> (\<exists>m \<in> set ms. toMeterLinkMode env (type m) \<noteq> link_mode c)
      then error ''A different link mode has been set already.\<newline>'' []
      else emit [] c)"
  by (induction ms) auto

lemma infer_link_mode_eq:
  "infer_link_mode env d c =
     (if link_mode_set c then emit [] c
      else case meters c of
             [] \<Rightarrow> emit [] c
           | m # ms \<Rightarrow>
               if d \<noteq> DEVICE_RTLWMBUS
                  \<and> (\<exists>m' \<in> set ms. toMeterLinkMode env (type m') \<noteq> toMeterLinkMode env (type m))
               then error ''A different link mode has been set already.\<newline>'' []
               else emit [] (c\<lparr>link_mode := toMeterLinkMode env (type m), link_mode_set := True\<rparr>))"
  by (simp add: infer_link_mode_def infer_loop_set split: list.splits)

lemma select_link_mode_quiet: "e \<in> set (fst (select_link_mode env d c)) \<Longrightarrow> quiet e"
  by (auto simp: select_link_mode_def infer_link_mode_eq require_link_mode_def fst_bind_proc
      quiet_def split: if_splits list.splits)


subsection \<open>The meters\<close>

lemma add_meter_eq:
  "add_meter env config mv m =
     (case meter_case (toMeterType env (type m)) of
        None \<Rightarrow> error (''No such meter type '' @ [CHR 0x22] @ ''%s'' @ [CHR 0x22] @ ''\<newline>'')
                  [ArgS (type m)]
      | Some (f, tag) \<Rightarrow>
          if list_shell_envs config then
            ([CreateMeter f (name m) (id_m m) (key m),
              Verbose (configured_msg tag) [ArgS (name m), ArgS (id_m m), ArgS (keymsg (key m))],
              PrintMeter f (name m),
              Printf ''Environment variables provided to shell for meter %s:\<newline>''
                [ArgS (type m)]]
             @ map (\<lambda>e. Printf ''%s\<newline>'' [ArgS (takeWhile (\<lambda>c. c \<noteq> CHR ''='') e)])
                 (printMeter env f (name m)),
             Terminate (Exited 0))
          else
            ([CreateMeter f (name m) (id_m m) (key m),
              Verbose (configured_msg tag) [ArgS (name m), ArgS (id_m m), ArgS (keymsg (key m))],
              OnUpdate (length mv) OutputPrint, OnUpdate (length mv) OneshotCheck],
             Continue (mv @ [(new_meter f m)\<lparr>on_update := [OutputPrint, OneshotCheck]\<rparr>])))"
  by (auto simp: add_meter_def create_meter_def list_envs_def register_callbacks_def
      bind_proc_def emit_def error_def exit_proc_def new_meter_def Let_def split: option.splits)

lemma add_meter_setup: "e \<in> set (fst (add_meter env config mv m)) \<Longrightarrow> meter_setup e"
  by (auto simp: add_meter_eq meter_setup_def quiet_def split: option.splits if_splits)

lemma fold_add_meter_setup:
  "e \<in> set (fst (fold_proc (add_meter env config) ms mv)) \<Longrightarrow> meter_setup e"
proof (induction ms arbitrary: mv)
  case Nil
  then show ?case by simp
next
  case (Cons m ms)
  then show ?case
    by (auto simp: fst_bind_proc dest: add_meter_setup split: step.splits)
qed

lemma configure_meters_setup: "e \<in> set (fst (configure_meters env config)) \<Longrightarrow> meter_setup e"
  by (auto simp: configure_meters_def fst_bind_proc meter_setup_def quiet_def
      dest: fold_add_meter_setup split: if_splits step.splits)

lemma fold_add_meter_result:
  "snd (fold_proc (add_meter env config) ms mv) = Terminate oc \<Longrightarrow>
   oc = Exited 0 \<or>
   oc = Fatal (''No such meter type '' @ [CHR 0x22] @ ''%s'' @ [CHR 0x22] @ ''\<newline>'')"
proof (induction ms arbitrary: mv)
  case Nil
  then show ?case by simp
next
  case (Cons m ms)
  then show ?case
    by (auto simp: snd_bind_proc add_meter_eq split: step.splits option.splits if_splits)
qed

lemma fold_add_meter_ok:
  "\<not> list_shell_envs config \<Longrightarrow>
   \<forall>m \<in> set ms. toMeterType env (type m) \<noteq> UNKNOWN_METER \<Longrightarrow>
   \<exists>mv'. snd (fold_proc (add_meter env config) ms mv) = Continue mv'"
proof (induction ms arbitrary: mv)
  case Nil
  then show ?case by simp
next
  case (Cons m ms)
  from Cons.prems have "meter_case (toMeterType env (type m)) \<noteq> None"
    by (cases "toMeterType env (type m)") auto
  with Cons show ?case
    by (auto simp: snd_bind_proc add_meter_eq split: step.splits option.splits if_splits)
qed

lemma fold_add_meter_callbacks:
  "snd (fold_proc (add_meter env config) ms mv) = Continue mv' \<Longrightarrow>
   \<exists>new. mv' = mv @ new \<and> length new = length ms
     \<and> (\<forall>b \<in> set new. on_update b = [OutputPrint, OneshotCheck] \<and> numUpdates b = 0)"
proof (induction ms arbitrary: mv)
  case Nil
  then show ?case by simp
next
  case (Cons m ms)
  from Cons.prems obtain mv1 where
    a: "snd (add_meter env config mv m) = Continue mv1" and
    r: "snd (fold_proc (add_meter env config) ms mv1) = Continue mv'"
    by (auto simp: snd_bind_proc split: step.splits)
  from a obtain b where
    mv1: "mv1 = mv @ [b]" and b: "on_update b = [OutputPrint, OneshotCheck]" "numUpdates b = 0"
    by (auto simp: add_meter_eq new_meter_def split: option.splits if_splits)
  from Cons.IH [OF r] obtain new where
    n: "mv' = mv1 @ new" "length new = length ms"
      "\<forall>b \<in> set new. on_update b = [OutputPrint, OneshotCheck] \<and> numUpdates b = 0"
    by blast
  show ?case
  proof (intro exI conjI)
    show "mv' = mv @ (b # new)" using n(1) mv1 by simp
    show "length (b # new) = length (m # ms)" using n(2) by simp
    show "\<forall>b \<in> set (b # new). on_update b = [OutputPrint, OneshotCheck] \<and> numUpdates b = 0"
      using n(3) b by simp
  qed
qed

lemma configure_meters_result:
  "snd (configure_meters env config) = Terminate oc \<Longrightarrow>
   oc = Exited 0 \<or>
   oc = Fatal (''No such meter type '' @ [CHR 0x22] @ ''%s'' @ [CHR 0x22] @ ''\<newline>'')"
  by (auto simp: configure_meters_def snd_bind_proc dest: fold_add_meter_result
      split: if_splits step.splits)

lemma configure_meters_empty:
  "meters config = [] \<Longrightarrow>
   configure_meters env config =
     ([Notice ''No meters configured. Printing id:s of all telegrams heard!\<newline>\<newline>'',
       OnTelegram TelegramPrint], Continue ([], [TelegramPrint]))"
  by (simp add: configure_meters_def emit_def)

lemma configure_meters_callbacks:
  "snd (configure_meters env config) = Continue (mv, ls) \<Longrightarrow>
   length mv = length (meters config) \<and>
   (\<forall>b \<in> set mv. on_update b = [OutputPrint, OneshotCheck] \<and> numUpdates b = 0) \<and>
   ls = (if meters config = [] then [TelegramPrint] else [])"
  by (auto simp: configure_meters_def snd_bind_proc dest!: fold_add_meter_callbacks
      split: if_splits step.splits)

subsection \<open>Actions at run time\<close>

lemma oneshotCheck_run_time: "e \<in> set (oneshotCheck config ms) \<Longrightarrow> at_run_time e"
  by (auto simp: oneshotCheck_def at_run_time_def split: if_splits)

lemma run_update_run_time:
  "\<forall>e \<in> set (snd acc). at_run_time e \<Longrightarrow>
   \<forall>e \<in> set (snd (run_update config t i acc cb)). at_run_time e"
  by (cases acc; cases cb) (auto simp: Let_def at_run_time_def dest: oneshotCheck_run_time)

lemma foldl_run_update_run_time:
  "\<forall>e \<in> set (snd acc). at_run_time e \<Longrightarrow>
   \<forall>e \<in> set (snd (foldl (run_update config t i) acc cbs)). at_run_time e"
proof (induction cbs arbitrary: acc)
  case Nil
  then show ?case by simp
next
  case (Cons cb cbs)
  show ?case
    unfolding foldl_Cons by (rule Cons.IH) (rule run_update_run_time [OF Cons.prems])
qed

lemma triggerUpdate_run_time:
  "e \<in> set (snd (triggerUpdate config i t st)) \<Longrightarrow> at_run_time e"
proof -
  have "\<forall>e \<in> set (snd (triggerUpdate config i t st)). at_run_time e"
    unfolding triggerUpdate_def Let_def by (rule foldl_run_update_run_time) simp
  then show "e \<in> set (snd (triggerUpdate config i t st)) \<Longrightarrow> at_run_time e" by blast
qed

lemma run_listener_run_time: "at_run_time (run_listener t cb)"
  by (cases cb) (simp add: at_run_time_def)

lemma handleTelegram_run_time:
  "e \<in> set (snd (handleTelegram env config i t st)) \<Longrightarrow> at_run_time e"
  by (auto simp: handleTelegram_def Let_def at_run_time_def dest: triggerUpdate_run_time
      split: option.splits)

lemma dispatch_run_time: "e \<in> set (snd (dispatch env config t st)) \<Longrightarrow> at_run_time e"
  by (auto simp: dispatch_def run_listener_run_time dest: handleTelegram_run_time
      split: option.splits if_splits)

lemma event_loop_run_time: "e \<in> set (snd (event_loop env config ts st)) \<Longrightarrow> at_run_time e"
proof (induction ts arbitrary: st)
  case Nil
  then show ?case by simp
next
  case (Cons t ts)
  show ?case
  proof (cases "rt_stopped st")
    case True
    with Cons.prems show ?thesis by simp
  next
    case False
    obtain st' tr where d: "dispatch env config t st = (st', tr)" by (cases "dispatch env config t st")
    obtain st'' tr' where l: "event_loop env config ts st' = (st'', tr')"
      by (cases "event_loop env config ts st'")
    from Cons.prems False d l have "e \<in> set tr \<or> e \<in> set tr'" by simp
    then show ?thesis
    proof
      assume "e \<in> set tr"
      then show ?thesis using dispatch_run_time [of e env config t st] d by simp
    next
      assume "e \<in> set tr'"
      then show ?thesis using Cons.IH [of st'] l by simp
    qed
  qed
qed

lemma run_device_run_time: "e \<in> set (run_device env d c ml) \<Longrightarrow> at_run_time e"
  by (auto simp: run_device_def Let_def at_run_time_def dest: event_loop_run_time split: if_splits)

lemma WaitForStop_run_device: "WaitForStop \<in> set (run_device env d c ml)"
  by (simp add: run_device_def Let_def)

subsection \<open>The run as a whole\<close>

lemma select_link_mode_eq:
  "select_link_mode env d c =
     (if link_mode_set c then emit [] c
      else case meters c of
             [] \<Rightarrow>
               if d \<noteq> DEVICE_RTLWMBUS \<and> d \<noteq> DEVICE_SIMULATOR then
                 error ''If you specify no meters, you have to specify the link mode: --c1 or --t1\<newline>'' []
               else emit [] c
           | m # ms \<Rightarrow>
               if d \<noteq> DEVICE_RTLWMBUS
                  \<and> (\<exists>m' \<in> set ms. toMeterLinkMode env (type m') \<noteq> toMeterLinkMode env (type m))
               then error ''A different link mode has been set already.\<newline>'' []
               else emit [] (c\<lparr>link_mode := toMeterLinkMode env (type m), link_mode_set := True\<rparr>))"
  by (auto simp: select_link_mode_def infer_link_mode_eq require_link_mode_def bind_proc_def
      emit_def error_def split: list.splits)

lemma select_link_mode_meters:
  "snd (select_link_mode env d c) = Continue c' \<Longrightarrow>
   meters c' = meters c \<and> daemon c' = daemon c \<and> list_shell_envs c' = list_shell_envs c"
  by (auto simp: select_link_mode_eq split: if_splits list.splits)

lemma fst_listen:
  "fst (listen env d c) =
     apply_link_mode env d c @ fst (configure_meters env c) @
       (case snd (configure_meters env c) of
          Continue ml \<Rightarrow> run_device env d c ml
        | Terminate oc \<Rightarrow> [])"
  by (simp add: listen_def fst_bind_proc split: step.splits)

lemma snd_listen:
  "snd (listen env d c) =
     (case snd (configure_meters env c) of
        Continue ml \<Rightarrow> Continue ()
      | Terminate oc \<Rightarrow> Terminate oc)"
  by (simp add: listen_def snd_bind_proc split: step.splits)

lemma trace_eq:
  "trace env config =
     fst (setup_logfile env config) @
       (case snd (setup_logfile env config) of
          Terminate oc \<Rightarrow> []
        | Continue u \<Rightarrow>
            setup_logging env config @ fst (open_device env config) @
              (case snd (open_device env config) of
                 Terminate oc \<Rightarrow> []
               | Continue d \<Rightarrow>
                   fst (select_link_mode env d config) @
                     (case snd (select_link_mode env d config) of
                        Terminate oc \<Rightarrow> []
                      | Continue c \<Rightarrow> fst (listen env d c))))"
  by (simp add: trace_def startUsingCommandline_def fst_bind_proc split: step.splits)

lemma result_eq:
  "result env config =
     (case snd (setup_logfile env config) of
        Terminate oc \<Rightarrow> Terminate oc
      | Continue u \<Rightarrow>
          (case snd (open_device env config) of
             Terminate oc \<Rightarrow> Terminate oc
           | Continue d \<Rightarrow>
               (case snd (select_link_mode env d config) of
                  Terminate oc \<Rightarrow> Terminate oc
                | Continue c \<Rightarrow> snd (listen env d c))))"
  by (simp add: result_def startUsingCommandline_def snd_bind_proc split: step.splits)

lemma quiet_simps [simp]:
  "\<not> quiet (DetectMBusDevice x d p)" "\<not> quiet (SetLinkMode lm)" "\<not> quiet (CreateMeter f n i k)"
  "\<not> quiet (OnTelegram cb)" "\<not> quiet Simulate" "\<not> quiet WaitForStop" "\<not> quiet Stopped"
  "\<not> quiet (Print t n)" "\<not> quiet (PrintTelegram t)" "\<not> quiet (DecryptionFailed t n)"
  "\<not> quiet (OnUpdate j cb')"
  by (simp_all add: quiet_def)

lemma meter_setup_simps [simp]:
  "\<not> meter_setup (DetectMBusDevice x d p)" "\<not> meter_setup (SetLinkMode lm)"
  "\<not> meter_setup Simulate" "\<not> meter_setup WaitForStop" "\<not> meter_setup Stopped"
  "\<not> meter_setup (Print t n)" "\<not> meter_setup (PrintTelegram t)"
  "\<not> meter_setup (DecryptionFailed t n)"
  by (simp_all add: meter_setup_def quiet_def)

lemma at_run_time_simps [simp]:
  "\<not> at_run_time (DetectMBusDevice x d p)" "\<not> at_run_time (SetLinkMode lm)"
  "\<not> at_run_time (CreateMeter f n i k)" "\<not> at_run_time (OnTelegram cb)"
  "\<not> at_run_time (OnUpdate j cb')" "\<not> at_run_time (Error msg args)"
  by (simp_all add: at_run_time_def)

lemma listen_events:
  "e \<in> set (fst (listen env d c)) \<Longrightarrow>
   e = SetLinkMode (link_mode c) \<or> quiet e \<or> meter_setup e \<or> at_run_time e"
  by (auto simp: fst_listen apply_link_mode_def Let_def quiet_def
      dest: configure_meters_setup run_device_run_time split: step.splits)

text \<open>A detection in the trace: the log file stage passed and this is what detection gave.\<close>

lemma detect_in_trace:
  "DetectMBusDevice x d p \<in> set (trace env config) \<longleftrightarrow>
     snd (setup_logfile env config) = Continue () \<and> x = device config
       \<and> detectMBusDevice env (device config) = (d, p)"
proof -
  obtain tr where od: "fst (open_device env config) =
      DetectMBusDevice (device config) (fst (detectMBusDevice env (device config)))
        (snd (detectMBusDevice env (device config))) # tr" and q: "\<forall>e \<in> set tr. quiet e"
    using open_device_trace by blast
  have a: "DetectMBusDevice x d p \<notin> set (fst (setup_logfile env config))"
    using setup_logfile_quiet by fastforce
  have b: "DetectMBusDevice x d p \<notin> set (setup_logging env config)"
    using setup_logging_quiet by fastforce
  have c: "DetectMBusDevice x d p \<notin> set tr" using q by fastforce
  have s: "DetectMBusDevice x d p \<notin> set (fst (select_link_mode env d' config))" for d'
    using select_link_mode_quiet by fastforce
  have l: "DetectMBusDevice x d p \<notin> set (fst (listen env d' c'))" for d' c'
    using listen_events [of "DetectMBusDevice x d p" env d' c'] by auto
  show ?thesis
    by (cases "detectMBusDevice env (device config)")
       (auto simp: trace_eq od a b c s l setup_logfile_result split: step.splits if_splits)
qed

lemmas example_defs =
  example_env_def example_config_def water_def heat_def gas_def flow_def locked_def

lemma setup_logfile_error:
  "Error msg args \<in> set (fst (setup_logfile env config)) \<Longrightarrow>
   snd (setup_logfile env config) = Terminate (Fatal msg)"
  by (auto simp: setup_logfile_def fst_bind_proc snd_bind_proc Let_def split: if_splits)

lemma setup_logging_error: "Error msg args \<notin> set (setup_logging env config)"
  by (auto simp: setup_logging_def split: if_splits)

lemma open_device_error: "Error msg args \<notin> set (fst (open_device env config))"
  by (auto simp: open_device_def fst_bind_proc Let_def split: prod.splits MBusDeviceType.splits)

lemma select_link_mode_error:
  "Error msg args \<in> set (fst (select_link_mode env d c)) \<Longrightarrow>
   snd (select_link_mode env d c) = Terminate (Fatal msg)"
  by (auto simp: select_link_mode_eq split: if_splits list.splits)

lemma fold_add_meter_error:
  "Error msg args \<in> set (fst (fold_proc (add_meter env config) ms mv)) \<Longrightarrow>
   snd (fold_proc (add_meter env config) ms mv) = Terminate (Fatal msg)"
proof (induction ms arbitrary: mv)
  case Nil
  then show ?case by simp
next
  case (Cons m ms)
  then show ?case
    by (auto simp: fst_bind_proc snd_bind_proc add_meter_eq split: step.splits option.splits if_splits)
qed

lemma configure_meters_error:
  "Error msg args \<in> set (fst (configure_meters env config)) \<Longrightarrow>
   snd (configure_meters env config) = Terminate (Fatal msg)"
  by (auto simp: configure_meters_def fst_bind_proc snd_bind_proc dest: fold_add_meter_error
      split: if_splits step.splits)

lemma listen_error:
  "Error msg args \<in> set (fst (listen env d c)) \<Longrightarrow> snd (listen env d c) = Terminate (Fatal msg)"
proof -
  assume a: "Error msg args \<in> set (fst (listen env d c))"
  have r: "Error msg args \<notin> set (run_device env d c ml)" for ml
    using run_device_run_time [of "Error msg args" env d c ml] by auto
  from a r have "Error msg args \<in> set (fst (configure_meters env c))"
    by (auto simp: fst_listen apply_link_mode_def Let_def split: step.splits)
  then show ?thesis by (simp add: snd_listen configure_meters_error)
qed

lemma error_in_trace:
  "Error msg args \<in> set (trace env config) \<Longrightarrow> result env config = Terminate (Fatal msg)"
  by (auto simp: trace_eq result_eq setup_logging_error open_device_error
      dest: setup_logfile_error select_link_mode_error listen_error split: step.splits)

text \<open>What a run that is ended early has done.\<close>

lemma listen_terminated:
  "snd (listen env d c) = Terminate oc \<Longrightarrow> e \<in> set (fst (listen env d c)) \<Longrightarrow>
   e = SetLinkMode (link_mode c) \<or> meter_setup e"
  by (auto simp: fst_listen snd_listen apply_link_mode_def Let_def meter_setup_def quiet_def
      dest: configure_meters_setup split: step.splits)

lemma open_device_events:
  "e \<in> set (fst (open_device env config)) \<Longrightarrow>
   quiet e \<or> e = DetectMBusDevice (device config) (fst (detectMBusDevice env (device config)))
                  (snd (detectMBusDevice env (device config)))"
  using open_device_trace [of env config] by auto

lemma terminated_trace:
  assumes "result env config = Terminate oc" and "e \<in> set (trace env config)"
  shows "quiet e \<or> meter_setup e \<or> (\<exists>x d p. e = DetectMBusDevice x d p) \<or> (\<exists>lm. e = SetLinkMode lm)"
  using assms
  by (auto simp: trace_eq result_eq split: step.splits
      dest: setup_logfile_quiet setup_logging_quiet open_device_events select_link_mode_quiet
        listen_terminated)


lemma continued_trace: "result env config = Continue () \<Longrightarrow> WaitForStop \<in> set (trace env config)"
  by (auto simp: trace_eq result_eq fst_listen snd_listen WaitForStop_run_device split: step.splits)

text \<open>A run in which a device was recognised.\<close>

lemma known_device_run:
  assumes "DetectMBusDevice x d p \<in> set (trace env config)" and "d \<noteq> DEVICE_UNKNOWN"
  shows "\<exists>pre. (\<forall>e \<in> set pre. quiet e \<or> e = DetectMBusDevice x d p)
    \<and> trace env config = pre @ fst (select_link_mode env d config) @
         (case snd (select_link_mode env d config) of
            Terminate oc \<Rightarrow> []
          | Continue c \<Rightarrow> fst (listen env d c))
    \<and> result env config =
         (case snd (select_link_mode env d config) of
            Terminate oc \<Rightarrow> Terminate oc
          | Continue c \<Rightarrow> snd (listen env d c))"
proof -
  from assms have lf: "snd (setup_logfile env config) = Continue ()"
    and x: "x = device config"
    and det: "detectMBusDevice env (device config) = (d, p)"
    by (simp_all add: detect_in_trace)
  have od: "snd (open_device env config) = Continue d"
    using assms(2) by (simp add: open_device_result det)
  let ?pre = "fst (setup_logfile env config) @ setup_logging env config @ fst (open_device env config)"
  have "\<forall>e \<in> set ?pre. quiet e \<or> e = DetectMBusDevice x d p"
    using setup_logfile_quiet [of _ env config] setup_logging_quiet [of _ env config]
      open_device_events [of _ env config]
    by (auto simp: det x)
  moreover have "trace env config = ?pre @ fst (select_link_mode env d config) @
         (case snd (select_link_mode env d config) of
            Terminate oc \<Rightarrow> []
          | Continue c \<Rightarrow> fst (listen env d c))"
    by (simp add: trace_eq lf od)
  moreover have "result env config =
         (case snd (select_link_mode env d config) of
            Terminate oc \<Rightarrow> Terminate oc
          | Continue c \<Rightarrow> snd (listen env d c))"
    by (simp add: result_eq lf od)
  ultimately show ?thesis by blast
qed

section \<open>The claims\<close>

text \<open>
  C1. At every call of \<^verbatim>\<open>oneshotCheck\<close>, \<^verbatim>\<open>manager->stop()\<close> is called if and only if
  the oneshot flag is on and every meter of the vector has an update count of at least 1.
  In particular, when oneshot is off or some meter still has update count 0, the function
  returns without doing anything.
\<close>

theorem oneshotCheck_stops_iff:
  "(Stopped \<in> set (oneshotCheck config ms :: ('lm, 't) event list)
      \<longleftrightarrow> oneshot config \<and> (\<forall>m \<in> set ms. 1 \<le> numUpdates m))
   \<and> (\<not> oneshot config \<or> (\<exists>m \<in> set ms. numUpdates m = 0)
        \<longrightarrow> (oneshotCheck config ms :: ('lm, 't) event list) = [])"
  by (auto simp: oneshotCheck_def all_updated_iff)

theorem oneshotCheck_stops_iff_witness:
  "Stopped \<in> set (oneshotCheck (example_config ''rtlwmbus'' [water, heat])
                    [updated_meter 1, updated_meter 2] :: (LinkMode, string) event list)
   \<and> (oneshotCheck (example_config ''rtlwmbus'' [water, heat])
        [updated_meter 1, updated_meter 0] :: (LinkMode, string) event list) = []"
  using oneshotCheck_stops_iff [of "example_config ''rtlwmbus'' [water, heat]"
          "[updated_meter 1, updated_meter 2]", where ?'t = string]
        oneshotCheck_stops_iff [of "example_config ''rtlwmbus'' [water, heat]"
          "[updated_meter 1, updated_meter 0]", where ?'t = string]
  by (simp add: example_config_def updated_meter_def new_meter_def)

text \<open>
  C2. When device detection yields \<^verbatim>\<open>DEVICE_UNKNOWN\<close>, the program calls
  \<^verbatim>\<open>warning\<close> and exits with code 1; no meter has been constructed, and neither
  \<^verbatim>\<open>simulate()\<close> nor \<^verbatim>\<open>waitForStop()\<close> is called.
\<close>

theorem unknown_device_exits:
  assumes "DetectMBusDevice x DEVICE_UNKNOWN p \<in> set (trace env config)"
  shows "result env config = Terminate (Exited 1)
    \<and> Warning ''No wmbus device found! Exiting!\<newline>'' \<in> set (trace env config)
    \<and> (\<forall>f n i k. CreateMeter f n i k \<notin> set (trace env config))
    \<and> WaitForStop \<notin> set (trace env config)
    \<and> Simulate \<notin> set (trace env config)"
proof -
  from assms have lf: "snd (setup_logfile env config) = Continue ()"
    and det: "fst (detectMBusDevice env (device config)) = DEVICE_UNKNOWN"
    by (simp_all add: detect_in_trace)
  have tr: "trace env config =
      fst (setup_logfile env config) @ setup_logging env config @ fst (open_device env config)"
    by (simp add: trace_eq lf open_device_result det)
  have q: "quiet e" if "e \<in> set (fst (setup_logfile env config) @ setup_logging env config)" for e
    using that setup_logfile_quiet setup_logging_quiet by auto
  have r: "result env config = Terminate (Exited 1)"
    by (simp add: result_eq lf open_device_result det)
  have w: "Warning ''No wmbus device found! Exiting!\<newline>'' \<in> set (trace env config)"
    by (simp add: tr open_device_unknown [OF det])
  have c: "CreateMeter f n i k \<notin> set (trace env config)" for f n i k
    using q [of "CreateMeter f n i k"] by (auto simp: tr open_device_unknown [OF det])
  have s: "WaitForStop \<notin> set (trace env config)" "Simulate \<notin> set (trace env config)"
    using q [of WaitForStop] q [of Simulate] by (auto simp: tr open_device_unknown [OF det])
  from r w c s show ?thesis by blast
qed

theorem unknown_device_exits_witness:
  "DetectMBusDevice ''nodev'' DEVICE_UNKNOWN ''nodev''
     \<in> set (trace (example_env []) (example_config ''nodev'' [water]))
   \<and> result (example_env []) (example_config ''nodev'' [water]) = Terminate (Exited 1)
   \<and> WaitForStop \<notin> set (trace (example_env []) (example_config ''nodev'' [water]))"
proof -
  have h: "DetectMBusDevice ''nodev'' DEVICE_UNKNOWN ''nodev''
     \<in> set (trace (example_env []) (example_config ''nodev'' [water]))"
    by (simp add: detect_in_trace setup_logfile_result example_defs)
  from unknown_device_exits [OF h] h show ?thesis by blast
qed

lemma conflict_select:
  assumes "\<not> link_mode_set config" and "a \<in> set (meters config)" and "b \<in> set (meters config)"
    and "toMeterLinkMode env (type a) \<noteq> toMeterLinkMode env (type b)"
  shows "select_link_mode env d config =
     (if d \<noteq> DEVICE_RTLWMBUS then error ''A different link mode has been set already.\<newline>'' []
      else emit [] (config\<lparr>link_mode := toMeterLinkMode env (type (hd (meters config))),
                            link_mode_set := True\<rparr>))"
proof (cases "meters config")
  case Nil
  with assms(2) show ?thesis by simp
next
  case (Cons m ms)
  have "\<exists>m' \<in> set ms. toMeterLinkMode env (type m') \<noteq> toMeterLinkMode env (type m)"
  proof (rule ccontr)
    assume "\<not> ?thesis"
    then have "\<forall>m' \<in> set (m # ms). toMeterLinkMode env (type m') = toMeterLinkMode env (type m)"
      by simp
    with assms(2,3) Cons have "toMeterLinkMode env (type a) = toMeterLinkMode env (type b)"
      by metis
    with assms(4) show False by contradiction
  qed
  with assms(1) Cons show ?thesis by (simp add: select_link_mode_eq)
qed

text \<open>
  C4. With no explicitly set link mode and two configured meters whose types require
  different link modes: when the detected device is not the RTL adapter the run ends before
  \<^verbatim>\<open>setLinkMode\<close> and \<^verbatim>\<open>waitForStop()\<close>, and for a recognised device it ends with the
  error ``A different link mode has been set already''; when the detected device is the RTL
  adapter that error is not raised, the link mode of the first meter is applied, and with
  known meter types (and without \<^verbatim>\<open>list_shell_envs\<close>) the event loop is entered.
\<close>

theorem link_mode_conflict:
  assumes "\<not> link_mode_set config" and "a \<in> set (meters config)" and "b \<in> set (meters config)"
    and "toMeterLinkMode env (type a) \<noteq> toMeterLinkMode env (type b)"
    and "DetectMBusDevice x d p \<in> set (trace env config)"
  shows "(d \<noteq> DEVICE_RTLWMBUS \<longrightarrow>
            (\<exists>oc. result env config = Terminate oc)
          \<and> (d \<noteq> DEVICE_UNKNOWN \<longrightarrow>
               result env config =
                 Terminate (Fatal ''A different link mode has been set already.\<newline>'')
             \<and> Error ''A different link mode has been set already.\<newline>'' []
                  \<in> set (trace env config))
          \<and> (\<forall>lm. SetLinkMode lm \<notin> set (trace env config))
          \<and> WaitForStop \<notin> set (trace env config))
       \<and> (d = DEVICE_RTLWMBUS \<longrightarrow>
            Error ''A different link mode has been set already.\<newline>'' []
              \<notin> set (trace env config)
          \<and> SetLinkMode (toMeterLinkMode env (type (hd (meters config))))
              \<in> set (trace env config)
          \<and> (\<not> list_shell_envs config
               \<and> (\<forall>m \<in> set (meters config). toMeterType env (type m) \<noteq> UNKNOWN_METER) \<longrightarrow>
               result env config = Continue () \<and> WaitForStop \<in> set (trace env config)))"
proof (intro conjI impI)
  assume d: "d \<noteq> DEVICE_RTLWMBUS"
  have r: "\<exists>oc. result env config = Terminate oc
       \<and> (d \<noteq> DEVICE_UNKNOWN \<longrightarrow> oc = Fatal ''A different link mode has been set already.\<newline>''
            \<and> Error ''A different link mode has been set already.\<newline>'' [] \<in> set (trace env config))
       \<and> (\<forall>lm. SetLinkMode lm \<notin> set (trace env config))"
  proof (cases "d = DEVICE_UNKNOWN")
    case True
    with assms(5) have lf: "snd (setup_logfile env config) = Continue ()"
      and det: "fst (detectMBusDevice env (device config)) = DEVICE_UNKNOWN"
      by (simp_all add: detect_in_trace)
    have "trace env config =
        fst (setup_logfile env config) @ setup_logging env config @ fst (open_device env config)"
      by (simp add: trace_eq lf open_device_result det)
    then have "SetLinkMode lm \<notin> set (trace env config)" for lm
      using setup_logfile_quiet [of "SetLinkMode lm" env config]
        setup_logging_quiet [of "SetLinkMode lm" env config]
        open_device_events [of "SetLinkMode lm" env config]
      by auto
    moreover have "result env config = Terminate (Exited 1)"
      by (simp add: result_eq lf open_device_result det)
    ultimately show ?thesis using True by simp
  next
    case False
    from known_device_run [OF assms(5) False] obtain pre where
      pre: "\<forall>e \<in> set pre. quiet e \<or> e = DetectMBusDevice x d p" and
      tr: "trace env config = pre @ [Error ''A different link mode has been set already.\<newline>'' []]"
      and r: "result env config = Terminate (Fatal ''A different link mode has been set already.\<newline>'')"
      by (auto simp: conflict_select [OF assms(1-4)] d)
    have "SetLinkMode lm \<notin> set (trace env config)" for lm
      using pre by (auto simp: tr)
    with r tr show ?thesis by simp
  qed
  from r show "\<exists>oc. result env config = Terminate oc" by blast
  from r show "\<forall>lm. SetLinkMode lm \<notin> set (trace env config)" by blast
  from r obtain oc where "result env config = Terminate oc" by blast
  from terminated_trace [OF this, of WaitForStop]
  show "WaitForStop \<notin> set (trace env config)" by auto
  {
    assume "d \<noteq> DEVICE_UNKNOWN"
    with r show "result env config =
        Terminate (Fatal ''A different link mode has been set already.\<newline>'')"
      and "Error ''A different link mode has been set already.\<newline>'' [] \<in> set (trace env config)"
      by auto
  }
next
  assume d: "d = DEVICE_RTLWMBUS"
  let ?c = "config\<lparr>link_mode := toMeterLinkMode env (type (hd (meters config))),
                    link_mode_set := True\<rparr>"
  from d have "d \<noteq> DEVICE_UNKNOWN" by simp
  from known_device_run [OF assms(5) this] obtain pre where
    tr: "trace env config = pre @ fst (listen env d ?c)"
    and r: "result env config = snd (listen env d ?c)"
    by (auto simp: conflict_select [OF assms(1-4)] d)
  show "SetLinkMode (toMeterLinkMode env (type (hd (meters config)))) \<in> set (trace env config)"
    by (simp add: tr fst_listen apply_link_mode_def Let_def)
  show "Error ''A different link mode has been set already.\<newline>'' [] \<notin> set (trace env config)"
  proof
    assume "Error ''A different link mode has been set already.\<newline>'' [] \<in> set (trace env config)"
    from error_in_trace [OF this]
    have "snd (configure_meters env ?c)
        = Terminate (Fatal ''A different link mode has been set already.\<newline>'')"
      by (auto simp: r snd_listen split: step.splits)
    from configure_meters_result [OF this] show False by simp
  qed
  {
    assume ok: "\<not> list_shell_envs config
      \<and> (\<forall>m \<in> set (meters config). toMeterType env (type m) \<noteq> UNKNOWN_METER)"
    from assms(2) have ne: "meters config \<noteq> []" by auto
    from ok fold_add_meter_ok [of ?c "meters config" env "[]"]
    obtain mv where "snd (fold_proc (add_meter env ?c) (meters config) []) = Continue mv"
      by auto
    with ne have "\<exists>ml. snd (configure_meters env ?c) = Continue ml"
      by (simp add: configure_meters_def snd_bind_proc)
    then show r': "result env config = Continue ()"
      by (auto simp: r snd_listen)
    show "WaitForStop \<in> set (trace env config)" by (rule continued_trace [OF r'])
  }
qed

theorem link_mode_conflict_witness:
  "result (example_env []) (example_config ''/dev/ttyUSB0'' [water, heat])
     = Terminate (Fatal ''A different link mode has been set already.\<newline>'')
   \<and> result (example_env []) (example_config ''rtlwmbus'' [water, heat]) = Continue ()
   \<and> SetLinkMode C1 \<in> set (trace (example_env []) (example_config ''rtlwmbus'' [water, heat]))"
proof -
  have m: "\<not> link_mode_set (example_config dev [water, heat])"
    "water \<in> set (meters (example_config dev [water, heat]))"
    "heat \<in> set (meters (example_config dev [water, heat]))"
    "toMeterLinkMode (example_env []) (type water) \<noteq> toMeterLinkMode (example_env []) (type heat)"
    for dev
    by (simp_all add: example_config_def example_env_def water_def heat_def)
  have h1: "DetectMBusDevice ''/dev/ttyUSB0'' DEVICE_IM871A ''/dev/ttyUSB0''
      \<in> set (trace (example_env []) (example_config ''/dev/ttyUSB0'' [water, heat]))"
    by (simp add: detect_in_trace setup_logfile_result example_env_def example_config_def)
  have h2: "DetectMBusDevice ''rtlwmbus'' DEVICE_RTLWMBUS ''rtlwmbus''
      \<in> set (trace (example_env []) (example_config ''rtlwmbus'' [water, heat]))"
    by (simp add: detect_in_trace setup_logfile_result example_env_def example_config_def)
  have k: "\<not> list_shell_envs (example_config ''rtlwmbus'' [water, heat])
      \<and> (\<forall>m \<in> set (meters (example_config ''rtlwmbus'' [water, heat])).
            toMeterType (example_env []) (type m) \<noteq> UNKNOWN_METER)"
    "toMeterLinkMode (example_env []) (type (hd (meters (example_config ''rtlwmbus'' [water, heat]))))
      = C1"
    by (simp_all add: example_config_def example_env_def water_def heat_def)
  from link_mode_conflict [OF m h1] link_mode_conflict [OF m h2] k
  show ?thesis by simp
qed

text \<open>
  C10. With no meters configured and no explicitly set link mode: on a detected device that
  is neither the RTL adapter nor the simulator the run ends with the error that demands
  \<^verbatim>\<open>--c1\<close> or \<^verbatim>\<open>--t1\<close>, before the event loop; on the RTL adapter or the
  simulator the link mode is applied, the telegram callback is registered and the event
  loop is entered.
\<close>

theorem missing_link_mode:
  assumes "meters config = []" and "\<not> link_mode_set config"
    and "DetectMBusDevice x d p \<in> set (trace env config)"
  shows "(d \<noteq> DEVICE_RTLWMBUS \<and> d \<noteq> DEVICE_SIMULATOR \<and> d \<noteq> DEVICE_UNKNOWN \<longrightarrow>
            result env config = Terminate (Fatal
              ''If you specify no meters, you have to specify the link mode: --c1 or --t1\<newline>'')
          \<and> Error ''If you specify no meters, you have to specify the link mode: --c1 or --t1\<newline>'' []
               \<in> set (trace env config)
          \<and> WaitForStop \<notin> set (trace env config))
       \<and> (d = DEVICE_RTLWMBUS \<or> d = DEVICE_SIMULATOR \<longrightarrow>
            result env config = Continue ()
          \<and> SetLinkMode (link_mode config) \<in> set (trace env config)
          \<and> OnTelegram TelegramPrint \<in> set (trace env config)
          \<and> WaitForStop \<in> set (trace env config))"
proof (intro conjI impI)
  assume d: "d \<noteq> DEVICE_RTLWMBUS \<and> d \<noteq> DEVICE_SIMULATOR \<and> d \<noteq> DEVICE_UNKNOWN"
  then have sl: "select_link_mode env d config =
      error ''If you specify no meters, you have to specify the link mode: --c1 or --t1\<newline>'' []"
    using assms(1,2) by (simp add: select_link_mode_eq)
  from known_device_run [OF assms(3)] d obtain pre where
    tr: "trace env config = pre @
      [Error ''If you specify no meters, you have to specify the link mode: --c1 or --t1\<newline>'' []]"
    and r: "result env config = Terminate (Fatal
      ''If you specify no meters, you have to specify the link mode: --c1 or --t1\<newline>'')"
    by (auto simp: sl)
  show "result env config = Terminate (Fatal
      ''If you specify no meters, you have to specify the link mode: --c1 or --t1\<newline>'')"
    by (rule r)
  show "Error ''If you specify no meters, you have to specify the link mode: --c1 or --t1\<newline>'' []
      \<in> set (trace env config)"
    by (simp add: tr)
  show "WaitForStop \<notin> set (trace env config)"
    using terminated_trace [OF r, of WaitForStop] by auto
next
  assume d: "d = DEVICE_RTLWMBUS \<or> d = DEVICE_SIMULATOR"
  then have sl: "select_link_mode env d config = emit [] config"
    using assms(1,2) by (auto simp: select_link_mode_eq)
  from d have "d \<noteq> DEVICE_UNKNOWN" by auto
  from known_device_run [OF assms(3) this] obtain pre where
    tr: "trace env config = pre @ fst (listen env d config)"
    and r: "result env config = snd (listen env d config)"
    by (auto simp: sl)
  show r': "result env config = Continue ()"
    by (simp add: r snd_listen configure_meters_empty [OF assms(1)])
  show "SetLinkMode (link_mode config) \<in> set (trace env config)"
    by (simp add: tr fst_listen apply_link_mode_def Let_def)
  show "OnTelegram TelegramPrint \<in> set (trace env config)"
    by (simp add: tr fst_listen configure_meters_empty [OF assms(1)])
  show "WaitForStop \<in> set (trace env config)"
    by (rule continued_trace [OF r'])
qed

theorem missing_link_mode_witness:
  "result (example_env []) (example_config ''/dev/ttyUSB0'' []) = Terminate (Fatal
      ''If you specify no meters, you have to specify the link mode: --c1 or --t1\<newline>'')
   \<and> result (example_env []) (example_config ''rtlwmbus'' []) = Continue ()
   \<and> result (example_env []) (example_config ''simulation.txt'' []) = Continue ()"
proof -
  have m: "meters (example_config dev []) = []" "\<not> link_mode_set (example_config dev [])" for dev
    by (simp_all add: example_config_def)
  have h1: "DetectMBusDevice ''/dev/ttyUSB0'' DEVICE_IM871A ''/dev/ttyUSB0''
      \<in> set (trace (example_env []) (example_config ''/dev/ttyUSB0'' []))"
    by (simp add: detect_in_trace setup_logfile_result example_env_def example_config_def)
  have h2: "DetectMBusDevice ''rtlwmbus'' DEVICE_RTLWMBUS ''rtlwmbus''
      \<in> set (trace (example_env []) (example_config ''rtlwmbus'' []))"
    by (simp add: detect_in_trace setup_logfile_result example_env_def example_config_def)
  have h3: "DetectMBusDevice ''simulation.txt'' DEVICE_SIMULATOR ''simulation.txt''
      \<in> set (trace (example_env []) (example_config ''simulation.txt'' []))"
    by (simp add: detect_in_trace setup_logfile_result example_env_def example_config_def)
  from missing_link_mode [OF m h1] missing_link_mode [OF m h2] missing_link_mode [OF m h3]
  show ?thesis by simp
qed

lemma set_link_mode_in_trace:
  assumes "SetLinkMode lm \<in> set (trace env config)"
  shows "\<exists>d c. snd (setup_logfile env config) = Continue ()
    \<and> snd (open_device env config) = Continue d
    \<and> snd (select_link_mode env d config) = Continue c \<and> lm = link_mode c"
proof -
  have a: "SetLinkMode lm \<notin> set (fst (setup_logfile env config))"
    using setup_logfile_quiet by fastforce
  have b: "SetLinkMode lm \<notin> set (setup_logging env config)"
    using setup_logging_quiet by fastforce
  have c: "SetLinkMode lm \<notin> set (fst (open_device env config))"
    using open_device_events [of "SetLinkMode lm" env config] by auto
  have s: "SetLinkMode lm \<notin> set (fst (select_link_mode env d' config))" for d'
    using select_link_mode_quiet by fastforce
  have l: "SetLinkMode lm \<in> set (fst (listen env d' c')) \<Longrightarrow> lm = link_mode c'" for d' c'
    using listen_events [of "SetLinkMode lm" env d' c'] by auto
  show ?thesis
  proof (cases "snd (setup_logfile env config)")
    case (Terminate oc)
    with assms a show ?thesis by (simp add: trace_eq)
  next
    case lf: (Continue u)
    show ?thesis
    proof (cases "snd (open_device env config)")
      case (Terminate oc)
      with assms a b c lf show ?thesis by (simp add: trace_eq)
    next
      case od: (Continue d)
      show ?thesis
      proof (cases "snd (select_link_mode env d config)")
        case (Terminate oc)
        with assms a b c s lf od show ?thesis by (simp add: trace_eq)
      next
        case sl: (Continue c')
        with assms a b c s lf od have "SetLinkMode lm \<in> set (fst (listen env d c'))"
          by (simp add: trace_eq)
        from l [OF this] lf od sl show ?thesis by simp
      qed
    qed
  qed
qed

text \<open>
  C3 as stated fails: with two meters that require different link modes on an IM871A
  dongle, the link mode is not set and at least one meter is configured, yet
  \<^verbatim>\<open>setLinkMode\<close> is never called (the run ends with the link mode conflict).
\<close>

theorem link_mode_inferred_counterexample:
  "\<not> link_mode_set (example_config ''/dev/ttyUSB0'' [water, heat])
   \<and> meters (example_config ''/dev/ttyUSB0'' [water, heat]) = [water, heat]
   \<and> toMeterLinkMode (example_env []) (type water) = C1
   \<and> SetLinkMode C1 \<notin> set (trace (example_env []) (example_config ''/dev/ttyUSB0'' [water, heat]))
   \<and> result (example_env []) (example_config ''/dev/ttyUSB0'' [water, heat])
       = Terminate (Fatal ''A different link mode has been set already.\<newline>'')"
proof -
  let ?c = "example_config ''/dev/ttyUSB0'' [water, heat]"
  let ?env = "example_env [] :: (LinkMode, string) Env"
  have m: "\<not> link_mode_set ?c" "meters ?c = [water, heat]"
    "toMeterLinkMode ?env (type water) = C1" "toMeterLinkMode ?env (type heat) = T1"
    by (simp_all add: example_defs)
  have h: "DetectMBusDevice ''/dev/ttyUSB0'' DEVICE_IM871A ''/dev/ttyUSB0'' \<in> set (trace ?env ?c)"
    by (simp add: detect_in_trace setup_logfile_result example_defs)
  have sl: "select_link_mode ?env DEVICE_IM871A ?c
      = error ''A different link mode has been set already.\<newline>'' []"
    by (simp add: select_link_mode_eq m)
  from known_device_run [OF h] have
    r: "result ?env ?c = Terminate (Fatal ''A different link mode has been set already.\<newline>'')"
    by (auto simp: sl)
  have od: "snd (open_device ?env ?c) = Continue DEVICE_IM871A"
    by (simp add: open_device_result example_defs)
  have "SetLinkMode C1 \<notin> set (trace ?env ?c)"
    using set_link_mode_in_trace [of C1 ?env ?c] by (auto simp: od sl)
  with m r show ?thesis by simp
qed

lemma link_mode_stage_passed:
  assumes "\<not> link_mode_set config" and "meters config = m # ms"
    and "snd (setup_logfile env config) = Continue ()"
    and "snd (open_device env config) = Continue d"
    and "snd (select_link_mode env d config) = Continue c"
  shows "\<exists>x p. DetectMBusDevice x d p \<in> set (trace env config) \<and> d \<noteq> DEVICE_UNKNOWN
    \<and> (d = DEVICE_RTLWMBUS
         \<or> (\<forall>m' \<in> set ms. toMeterLinkMode env (type m') = toMeterLinkMode env (type m)))"
proof -
  from assms(4) have d: "fst (detectMBusDevice env (device config)) = d" "d \<noteq> DEVICE_UNKNOWN"
    by (auto simp: open_device_result split: if_splits)
  then have "DetectMBusDevice (device config) d (snd (detectMBusDevice env (device config)))
      \<in> set (trace env config)"
    using assms(3) by (auto simp: detect_in_trace)
  moreover from assms(1,2,5) have "d = DEVICE_RTLWMBUS
      \<or> (\<forall>m' \<in> set ms. toMeterLinkMode env (type m') = toMeterLinkMode env (type m))"
    by (auto simp: select_link_mode_eq split: if_splits)
  ultimately show ?thesis using d(2) by blast
qed

text \<open>
  C3, amended. When the link mode is not explicitly set and at least one meter is
  configured, every link mode given to \<^verbatim>\<open>setLinkMode\<close> is the link mode of the first
  configured meter; and \<^verbatim>\<open>setLinkMode\<close> is called with it whenever a device is
  recognised and either the device is the RTL adapter or no later meter requires a link
  mode different from that of the first. Otherwise the run ends early and
  \<^verbatim>\<open>setLinkMode\<close> is never called; when a recognised device other than the RTL adapter
  meets a later meter with a different link mode, it ends with the error ``A different
  link mode has been set already''.
\<close>

theorem link_mode_inferred:
  assumes "\<not> link_mode_set config" and "meters config = m # ms"
  shows "(\<forall>lm. SetLinkMode lm \<in> set (trace env config) \<longrightarrow> lm = toMeterLinkMode env (type m))
       \<and> (\<forall>x d p. DetectMBusDevice x d p \<in> set (trace env config) \<and> d \<noteq> DEVICE_UNKNOWN
              \<and> (d = DEVICE_RTLWMBUS
                   \<or> (\<forall>m' \<in> set ms. toMeterLinkMode env (type m') = toMeterLinkMode env (type m)))
            \<longrightarrow> SetLinkMode (toMeterLinkMode env (type m)) \<in> set (trace env config))
       \<and> (\<not> (\<exists>x d p. DetectMBusDevice x d p \<in> set (trace env config) \<and> d \<noteq> DEVICE_UNKNOWN
                \<and> (d = DEVICE_RTLWMBUS
                     \<or> (\<forall>m' \<in> set ms. toMeterLinkMode env (type m') = toMeterLinkMode env (type m))))
            \<longrightarrow> (\<forall>lm. SetLinkMode lm \<notin> set (trace env config))
              \<and> (\<exists>oc. result env config = Terminate oc)
              \<and> WaitForStop \<notin> set (trace env config))
       \<and> (\<forall>x d p. DetectMBusDevice x d p \<in> set (trace env config) \<and> d \<noteq> DEVICE_UNKNOWN
              \<and> d \<noteq> DEVICE_RTLWMBUS
              \<and> (\<exists>m' \<in> set ms. toMeterLinkMode env (type m') \<noteq> toMeterLinkMode env (type m))
            \<longrightarrow> result env config
                  = Terminate (Fatal ''A different link mode has been set already.\<newline>''))"
proof (intro conjI allI impI)
  fix lm
  assume "SetLinkMode lm \<in> set (trace env config)"
  from set_link_mode_in_trace [OF this] obtain d c where
    "snd (select_link_mode env d config) = Continue c" "lm = link_mode c"
    by blast
  with assms show "lm = toMeterLinkMode env (type m)"
    by (auto simp: select_link_mode_eq split: if_splits)
next
  fix x d p
  assume a: "DetectMBusDevice x d p \<in> set (trace env config) \<and> d \<noteq> DEVICE_UNKNOWN
      \<and> (d = DEVICE_RTLWMBUS
           \<or> (\<forall>m' \<in> set ms. toMeterLinkMode env (type m') = toMeterLinkMode env (type m)))"
  let ?c = "config\<lparr>link_mode := toMeterLinkMode env (type m), link_mode_set := True\<rparr>"
  from a assms have sl: "select_link_mode env d config = emit [] ?c"
    by (auto simp: select_link_mode_eq)
  from a have "DetectMBusDevice x d p \<in> set (trace env config)" "d \<noteq> DEVICE_UNKNOWN" by simp_all
  from known_device_run [OF this] obtain pre where
    "trace env config = pre @ fst (listen env d ?c)"
    by (auto simp: sl)
  then show "SetLinkMode (toMeterLinkMode env (type m)) \<in> set (trace env config)"
    by (simp add: fst_listen apply_link_mode_def Let_def)
next
  assume n: "\<not> (\<exists>x d p. DetectMBusDevice x d p \<in> set (trace env config) \<and> d \<noteq> DEVICE_UNKNOWN
      \<and> (d = DEVICE_RTLWMBUS
           \<or> (\<forall>m' \<in> set ms. toMeterLinkMode env (type m') = toMeterLinkMode env (type m))))"
  show "SetLinkMode lm \<notin> set (trace env config)" for lm
  proof
    assume "SetLinkMode lm \<in> set (trace env config)"
    from set_link_mode_in_trace [OF this] obtain d c where
      "snd (setup_logfile env config) = Continue ()" "snd (open_device env config) = Continue d"
      "snd (select_link_mode env d config) = Continue c"
      by blast
    from link_mode_stage_passed [OF assms this] n show False by blast
  qed
  show r: "\<exists>oc. result env config = Terminate oc"
  proof (cases "result env config")
    case (Terminate oc)
    then show ?thesis by blast
  next
    case (Continue u)
    then obtain d c where
      "snd (setup_logfile env config) = Continue ()" "snd (open_device env config) = Continue d"
      "snd (select_link_mode env d config) = Continue c"
      by (auto simp: result_eq split: step.splits)
    from link_mode_stage_passed [OF assms this] n show ?thesis by blast
  qed
  from r obtain oc where "result env config = Terminate oc" by blast
  from terminated_trace [OF this, of WaitForStop]
  show "WaitForStop \<notin> set (trace env config)" by auto
next
  fix x d p
  assume a: "DetectMBusDevice x d p \<in> set (trace env config) \<and> d \<noteq> DEVICE_UNKNOWN
      \<and> d \<noteq> DEVICE_RTLWMBUS
      \<and> (\<exists>m' \<in> set ms. toMeterLinkMode env (type m') \<noteq> toMeterLinkMode env (type m))"
  with assms have sl: "select_link_mode env d config
      = error ''A different link mode has been set already.\<newline>'' []"
    by (auto simp: select_link_mode_eq)
  from a have "DetectMBusDevice x d p \<in> set (trace env config)" "d \<noteq> DEVICE_UNKNOWN" by simp_all
  from known_device_run [OF this]
  show "result env config = Terminate (Fatal ''A different link mode has been set already.\<newline>'')"
    by (auto simp: sl)
qed

theorem link_mode_inferred_witness:
  "SetLinkMode C1 \<in> set (trace (example_env []) (example_config ''/dev/ttyUSB0'' [water, water]))
   \<and> SetLinkMode C1 \<notin> set (trace (example_env []) (example_config ''/dev/ttyUSB0'' [water, heat]))
   \<and> SetLinkMode T1 \<notin> set (trace (example_env []) (example_config ''/dev/ttyUSB0'' [water, heat]))
   \<and> WaitForStop \<notin> set (trace (example_env []) (example_config ''/dev/ttyUSB0'' [water, heat]))
   \<and> SetLinkMode C1 \<in> set (trace (example_env []) (example_config ''rtlwmbus'' [water, heat]))"
proof -
  let ?env = "example_env [] :: (LinkMode, string) Env"
  have m: "\<not> link_mode_set (example_config dev [water, w])"
    "meters (example_config dev [water, w]) = water # [w]" for dev w
    by (simp_all add: example_defs)
  have h: "DetectMBusDevice ''/dev/ttyUSB0'' DEVICE_IM871A ''/dev/ttyUSB0''
      \<in> set (trace ?env (example_config ''/dev/ttyUSB0'' [water, water]))"
    by (simp add: detect_in_trace setup_logfile_result example_defs)
  have h': "DetectMBusDevice ''rtlwmbus'' DEVICE_RTLWMBUS ''rtlwmbus''
      \<in> set (trace ?env (example_config ''rtlwmbus'' [water, heat]))"
    by (simp add: detect_in_trace setup_logfile_result example_defs)
  have k: "toMeterLinkMode ?env (type water) = C1" "toMeterLinkMode ?env (type heat) = T1"
    by (simp_all add: example_defs)
  have n: "\<not> (\<exists>x d p. DetectMBusDevice x d p
        \<in> set (trace ?env (example_config ''/dev/ttyUSB0'' [water, heat]))
      \<and> d \<noteq> DEVICE_UNKNOWN
      \<and> (d = DEVICE_RTLWMBUS
           \<or> (\<forall>m' \<in> set [heat]. toMeterLinkMode ?env (type m') = toMeterLinkMode ?env (type water))))"
    by (auto simp: detect_in_trace k) (simp add: example_defs)
  from link_mode_inferred [OF m, of ?env "''/dev/ttyUSB0''" water] h k
  have a: "SetLinkMode C1 \<in> set (trace ?env (example_config ''/dev/ttyUSB0'' [water, water]))"
    by auto
  from link_mode_inferred [OF m, of ?env "''rtlwmbus''" heat] h' k
  have b: "SetLinkMode C1 \<in> set (trace ?env (example_config ''rtlwmbus'' [water, heat]))"
    by auto
  from link_mode_inferred [OF m, of ?env "''/dev/ttyUSB0''" heat] n
  have c: "(\<forall>lm. SetLinkMode lm \<notin> set (trace ?env (example_config ''/dev/ttyUSB0'' [water, heat])))
      \<and> WaitForStop \<notin> set (trace ?env (example_config ''/dev/ttyUSB0'' [water, heat]))"
    by blast
  from a b c show ?thesis by blast
qed




lemma quiet_not_id_print: "quiet e \<Longrightarrow> \<not> id_print e"
  by (cases e) (simp_all add: quiet_def id_print_def)

lemma event_loop_discovery:
  "rt_meters st = [] \<Longrightarrow> rt_listeners st = [TelegramPrint] \<Longrightarrow> \<not> rt_stopped st \<Longrightarrow>
   event_loop env config ts st = (st, map PrintTelegram ts)"
  by (induction ts) (simp_all add: dispatch_def)

lemma run_device_discovery:
  "filter id_print (run_device env d c ([], [TelegramPrint])) = map PrintTelegram (telegrams env)"
proof -
  have f: "filter id_print (map PrintTelegram ts) = (map PrintTelegram ts :: ('a, 'b) event list)" for ts
    by (induction ts) (simp_all add: id_print_def)
  show ?thesis
    by (simp add: run_device_def Let_def event_loop_discovery f id_print_def)
qed

text \<open>
  C5 as stated fails: with no meters configured, no link mode given and an IM871A dongle,
  the telegram callback is never registered and no telegram is printed (the run ends with
  the error that demands a link mode).
\<close>

theorem discovery_mode_counterexample:
  "meters (example_config ''/dev/ttyUSB0'' []) = []
   \<and> OnTelegram TelegramPrint
       \<notin> set (trace (example_env [''12345678'']) (example_config ''/dev/ttyUSB0'' []))
   \<and> PrintTelegram ''12345678''
       \<notin> set (trace (example_env [''12345678'']) (example_config ''/dev/ttyUSB0'' []))"
proof -
  let ?c = "example_config ''/dev/ttyUSB0'' []"
  let ?env = "example_env [''12345678''] :: (LinkMode, string) Env"
  have m: "meters ?c = []" by (simp add: example_defs)
  have h: "DetectMBusDevice ''/dev/ttyUSB0'' DEVICE_IM871A ''/dev/ttyUSB0'' \<in> set (trace ?env ?c)"
    by (simp add: detect_in_trace setup_logfile_result example_defs)
  have sl: "select_link_mode ?env DEVICE_IM871A ?c =
      error ''If you specify no meters, you have to specify the link mode: --c1 or --t1\<newline>'' []"
    by (simp add: select_link_mode_eq example_defs)
  from known_device_run [OF h] obtain pre where
    pre: "\<forall>e \<in> set pre. quiet e
        \<or> e = DetectMBusDevice ''/dev/ttyUSB0'' DEVICE_IM871A ''/dev/ttyUSB0''"
    and tr: "trace ?env ?c = pre @
      [Error ''If you specify no meters, you have to specify the link mode: --c1 or --t1\<newline>'' []]"
    by (auto simp: sl)
  have "OnTelegram TelegramPrint \<notin> set (trace ?env ?c)"
    using pre by (auto simp: tr)
  moreover have "PrintTelegram ''12345678'' \<notin> set (trace ?env ?c)"
    using pre by (auto simp: tr)
  ultimately show ?thesis using m by simp
qed

text \<open>
  C5, amended. In every run with an empty meter list that does not end early, the telegram
  callback that prints a telegram is registered on the device before any telegram is
  printed, and the lines printed afterwards are those of the received telegrams, one per
  telegram, in the order of arrival.
\<close>

theorem discovery_mode:
  assumes "meters config = []" and "result env config = Continue ()"
  shows "\<exists>pre post. trace env config = pre @ OnTelegram TelegramPrint # post
    \<and> (\<forall>e \<in> set pre. \<not> id_print e)
    \<and> filter id_print post = map PrintTelegram (telegrams env)"
proof -
  from assms(2) obtain d c where lf: "snd (setup_logfile env config) = Continue ()"
    and od: "snd (open_device env config) = Continue d"
    and sl: "snd (select_link_mode env d config) = Continue c"
    by (auto simp: result_eq split: step.splits)
  from select_link_mode_meters [OF sl] assms(1) have mc: "meters c = []" by simp
  let ?pre = "fst (setup_logfile env config) @ setup_logging env config
      @ fst (open_device env config) @ fst (select_link_mode env d config)
      @ apply_link_mode env d c
      @ [Notice ''No meters configured. Printing id:s of all telegrams heard!\<newline>\<newline>'']"
  let ?post = "run_device env d c ([], [TelegramPrint])"
  have "trace env config = ?pre @ OnTelegram TelegramPrint # ?post"
    by (simp add: trace_eq lf od sl fst_listen configure_meters_empty [OF mc])
  moreover have "\<forall>e \<in> set ?pre. \<not> id_print e"
  proof -
    have a: "\<forall>e \<in> set (fst (setup_logfile env config)). \<not> id_print e"
      using setup_logfile_quiet quiet_not_id_print by blast
    have b: "\<forall>e \<in> set (setup_logging env config). \<not> id_print e"
      using setup_logging_quiet quiet_not_id_print by blast
    have "\<not> id_print (DetectMBusDevice x' d' p' :: ('a, 'b) event)" for x' d' p'
      by (simp add: id_print_def)
    then have c: "\<forall>e \<in> set (fst (open_device env config)). \<not> id_print e"
      using open_device_events [of _ env config] quiet_not_id_print by metis
    have s: "\<forall>e \<in> set (fst (select_link_mode env d config)). \<not> id_print e"
      using select_link_mode_quiet quiet_not_id_print by blast
    have l: "\<forall>e \<in> set (apply_link_mode env d c). \<not> id_print e"
      by (simp add: apply_link_mode_def Let_def id_print_def)
    from a b c s l show ?thesis by (simp add: ball_Un id_print_def)
  qed
  moreover have "filter id_print ?post = map PrintTelegram (telegrams env)"
    by (rule run_device_discovery)
  ultimately show ?thesis by blast
qed

theorem discovery_mode_witness:
  "\<exists>pre post.
     trace (example_env [''12345678'', ''87654321'', ''11112222''])
       (example_config ''simulation.txt'' []) = pre @ OnTelegram TelegramPrint # post
     \<and> (\<forall>e \<in> set pre. \<not> id_print e)
     \<and> filter id_print post
         = [PrintTelegram ''12345678'', PrintTelegram ''87654321'', PrintTelegram ''11112222'']"
proof -
  let ?c = "example_config ''simulation.txt'' []"
  let ?env = "example_env [''12345678'', ''87654321'', ''11112222''] :: (LinkMode, string) Env"
  have m: "meters ?c = []" by (simp add: example_defs)
  have r: "result ?env ?c = Continue ()"
    by (simp add: result_eq setup_logfile_result open_device_result select_link_mode_eq snd_listen
        configure_meters_empty example_defs)
  have t: "telegrams ?env = [''12345678'', ''87654321'', ''11112222'']"
    by (simp add: example_defs)
  from discovery_mode [OF m r] t show ?thesis by simp
qed

lemma find_meter_Some:
  "find_meter env ms t = Some i \<Longrightarrow>
   i < length ms \<and> isTelegramForMe env (factory (ms ! i)) (meter_id (ms ! i)) t"
proof (induction ms arbitrary: i)
  case Nil
  then show ?case by simp
next
  case (Cons m ms)
  then show ?case by (auto split: if_splits)
qed

lemma run_update_meters: "rt_meters (fst (run_update config t i acc cb)) = rt_meters (fst acc)"
  by (cases acc; cases cb) (simp_all add: Let_def)

lemma foldl_run_update_meters:
  "rt_meters (fst (foldl (run_update config t i) acc cbs)) = rt_meters (fst acc)"
  by (induction cbs arbitrary: acc) (simp_all add: run_update_meters)

lemma triggerUpdate_meters:
  "rt_meters (fst (triggerUpdate config i t st)) =
     (rt_meters st)[i := (rt_meters st ! i)\<lparr>numUpdates := Suc (numUpdates (rt_meters st ! i))\<rparr>]"
  by (simp add: triggerUpdate_def Let_def foldl_run_update_meters)

lemma on_update_list_update:
  "map on_update (ms[i := (ms ! i)\<lparr>numUpdates := n\<rparr>]) = map on_update ms"
proof (cases "i < length ms")
  case True
  then show ?thesis by (simp add: map_update list_update_same_conv)
next
  case False
  then have "length ms \<le> i" by simp
  then have "ms[i := (ms ! i)\<lparr>numUpdates := n\<rparr>] = ms" by (rule list_update_beyond)
  then show ?thesis by simp
qed

lemma dispatch_on_update:
  "map on_update (rt_meters (fst (dispatch env config t st))) = map on_update (rt_meters st)"
  by (auto simp: dispatch_def handleTelegram_def Let_def triggerUpdate_meters on_update_list_update
      split: option.splits)

lemma event_loop_on_update:
  "map on_update (rt_meters (fst (event_loop env config ts st))) = map on_update (rt_meters st)"
proof (induction ts arbitrary: st)
  case Nil
  then show ?case by simp
next
  case (Cons t ts)
  show ?case
  proof (cases "rt_stopped st")
    case True
    then show ?thesis by simp
  next
    case False
    obtain st' tr where d: "dispatch env config t st = (st', tr)" by (cases "dispatch env config t st")
    from dispatch_on_update [of env config t st] d
    have "map on_update (rt_meters st') = map on_update (rt_meters st)" by simp
    obtain st'' tr' where l: "event_loop env config ts st' = (st'', tr')"
      by (cases "event_loop env config ts st'")
    from Cons.IH [of st'] l have "map on_update (rt_meters st'') = map on_update (rt_meters st')"
      by simp
    with \<open>map on_update (rt_meters st') = map on_update (rt_meters st)\<close> False d l
    show ?thesis by simp
  qed
qed

lemma triggerUpdate_two_callbacks:
  assumes "i < length (rt_meters st)"
    and "on_update (rt_meters st ! i) = [OutputPrint, OneshotCheck]"
  shows "snd (triggerUpdate config i t st) =
     Print t (meter_name (rt_meters st ! i))
       # oneshotCheck config (rt_meters (fst (triggerUpdate config i t st)))"
  using assms by (simp add: triggerUpdate_def Let_def)

text \<open>
  C6. Every meter that \<^verbatim>\<open>startUsingCommandline\<close> has configured carries the output
  callback and then the oneshot check, in this order of registration, and still does after
  any telegrams have been handled. When a telegram is handled by meter \<open>i\<close>, the callbacks
  run in that order: the reading is printed first, and what the oneshot check does (which
  alone can call \<^verbatim>\<open>stop()\<close>) follows it; the update count has been incremented.
\<close>

theorem print_before_stop:
  assumes "snd (configure_meters env config) = Continue (mv, ls)"
    and "st = fst (event_loop env config ts \<lparr>rt_meters = mv, rt_listeners = ls, rt_stopped = False\<rparr>)"
    and "find_meter env (rt_meters st) t = Some i"
    and "decrypt env (factory (rt_meters st ! i)) (meter_key (rt_meters st ! i)) t = Some t'"
  shows "on_update (rt_meters st ! i) = [OutputPrint, OneshotCheck]
    \<and> snd (dispatch env config t st) =
        Print t' (meter_name (rt_meters st ! i))
          # oneshotCheck config (rt_meters (fst (dispatch env config t st)))
    \<and> numUpdates (rt_meters (fst (dispatch env config t st)) ! i)
        = Suc (numUpdates (rt_meters st ! i))"
proof -
  from find_meter_Some [OF assms(3)] have i: "i < length (rt_meters st)" by simp
  from configure_meters_callbacks [OF assms(1)]
  have "\<forall>b \<in> set mv. on_update b = [OutputPrint, OneshotCheck]" by simp
  then have "map on_update mv = map (\<lambda>b. [OutputPrint, OneshotCheck]) mv" by simp
  with event_loop_on_update [of env config ts "\<lparr>rt_meters = mv, rt_listeners = ls, rt_stopped = False\<rparr>"]
    assms(2)
  have m: "map on_update (rt_meters st) = map (\<lambda>b. [OutputPrint, OneshotCheck]) mv" by simp
  then have "length (rt_meters st) = length mv" using length_map by metis
  with i m have cb: "on_update (rt_meters st ! i) = [OutputPrint, OneshotCheck]"
    using nth_map [of i "rt_meters st" on_update] nth_map [of i mv "\<lambda>b. [OutputPrint, OneshotCheck]"]
    by simp
  have d: "dispatch env config t st = triggerUpdate config i t' st"
    using assms(3,4) by (simp add: dispatch_def handleTelegram_def Let_def)
  have "numUpdates (rt_meters (fst (triggerUpdate config i t' st)) ! i)
      = Suc (numUpdates (rt_meters st ! i))"
    using i by (simp add: triggerUpdate_meters)
  with cb d triggerUpdate_two_callbacks [OF i cb, of config t'] show ?thesis by simp
qed

theorem print_before_stop_witness:
  "snd (dispatch (example_env []) (example_config ''rtlwmbus'' [water, locked]) ''12345678''
          (example_runtime [water, locked]))
     = Print ''12345678'' ''water''
         # oneshotCheck (example_config ''rtlwmbus'' [water, locked])
             (rt_meters (fst (dispatch (example_env []) (example_config ''rtlwmbus'' [water, locked])
                ''12345678'' (example_runtime [water, locked]))))"
proof -
  let ?c = "example_config ''rtlwmbus'' [water, locked]"
  let ?env = "example_env [] :: (LinkMode, string) Env"
  let ?mv = "[(new_meter createMultical21 water)\<lparr>on_update := [OutputPrint, OneshotCheck]\<rparr>,
              (new_meter createMultical21 locked)\<lparr>on_update := [OutputPrint, OneshotCheck]\<rparr>]"
  let ?st = "\<lparr>rt_meters = ?mv, rt_listeners = [], rt_stopped = False\<rparr>"
  have h1: "snd (configure_meters ?env ?c) = Continue (?mv, [])"
    by (simp add: configure_meters_def snd_bind_proc add_meter_eq example_defs)
  have h2: "?st = fst (event_loop ?env ?c [] ?st)" by simp
  have h3: "find_meter ?env (rt_meters ?st) ''12345678'' = Some 0"
    by (simp add: example_defs new_meter_def)
  have h4: "decrypt ?env (factory (rt_meters ?st ! 0)) (meter_key (rt_meters ?st ! 0)) ''12345678''
      = Some ''12345678''"
    by (simp add: example_defs new_meter_def)
  have e: "dispatch ?env ?c ''12345678'' (example_runtime [water, locked])
      = dispatch ?env ?c ''12345678'' ?st"
    by (simp add: dispatch_def handleTelegram_def example_runtime_def example_defs new_meter_def
        Let_def)
  from print_before_stop [OF h1 h2 h3 h4] e show ?thesis
    by (simp add: new_meter_def water_def)
qed

lemma event_loop_stopped: "rt_stopped st \<Longrightarrow> event_loop env config ts st = (st, [])"
  by (cases ts) simp_all

text \<open>
  C7. A telegram whose decryption with the key of the matching meter fails is dropped: the
  run-time state is unchanged, so no update count is incremented and the oneshot predicate
  is as it was; \<^verbatim>\<open>stop()\<close> is not called; and the event loop ends in the same
  state as if the telegram had not arrived.
\<close>

theorem decryption_failure_drops:
  assumes "find_meter env (rt_meters st) t = Some i"
    and "decrypt env (factory (rt_meters st ! i)) (meter_key (rt_meters st ! i)) t = None"
  shows "dispatch env config t st = (st, [DecryptionFailed t (meter_name (rt_meters st ! i))])
    \<and> map numUpdates (rt_meters (fst (dispatch env config t st))) = map numUpdates (rt_meters st)
    \<and> all_updated (rt_meters (fst (dispatch env config t st))) = all_updated (rt_meters st)
    \<and> Stopped \<notin> set (snd (dispatch env config t st))
    \<and> fst (event_loop env config (t # ts) st) = fst (event_loop env config ts st)"
proof -
  have d: "dispatch env config t st = (st, [DecryptionFailed t (meter_name (rt_meters st ! i))])"
    using assms by (simp add: dispatch_def handleTelegram_def Let_def)
  have "fst (event_loop env config (t # ts) st) = fst (event_loop env config ts st)"
  proof (cases "rt_stopped st")
    case True
    then show ?thesis by (simp add: event_loop_stopped)
  next
    case False
    then show ?thesis by (simp add: d split: prod.splits)
  qed
  with d show ?thesis by simp
qed

theorem decryption_failure_drops_witness:
  "dispatch (example_env []) (example_config ''rtlwmbus'' [locked]) ''33334444''
     (example_runtime [locked])
   = (example_runtime [locked], [DecryptionFailed ''33334444'' ''locked''])"
proof -
  let ?c = "example_config ''rtlwmbus'' [locked]"
  let ?env = "example_env [] :: (LinkMode, string) Env"
  let ?st = "example_runtime [locked]"
  have h1: "find_meter ?env (rt_meters ?st) ''33334444'' = Some 0"
    by (simp add: example_runtime_def example_defs new_meter_def)
  have h2: "decrypt ?env (factory (rt_meters ?st ! 0)) (meter_key (rt_meters ?st ! 0)) ''33334444''
      = None"
    by (simp add: example_runtime_def example_defs new_meter_def)
  have n: "meter_name (rt_meters ?st ! 0) = ''locked''"
    by (simp add: example_runtime_def example_defs new_meter_def)
  from decryption_failure_drops [OF h1 h2, of ?c] n show ?thesis by simp
qed

text \<open>
  C9. A meter configured with type flowiq3100 is built by \<^verbatim>\<open>createMultical21\<close> with the
  same arguments as a multical21 meter of the same name, id and key. The vector of meters
  is the same in both cases, hence so is the handling of every telegram.
\<close>

theorem flowiq3100_as_multical21:
  assumes "toMeterType env (type a) = FLOWIQ3100_METER"
    and "toMeterType env (type b) = MULTICAL21_METER"
    and "name a = name b" and "id_m a = id_m b" and "key a = key b"
  shows "snd (add_meter env config mv a) = snd (add_meter env config mv b)
    \<and> CreateMeter createMultical21 (name b) (id_m b) (key b) \<in> set (fst (add_meter env config mv a))
    \<and> CreateMeter createMultical21 (name b) (id_m b) (key b) \<in> set (fst (add_meter env config mv b))
    \<and> (\<not> list_shell_envs config \<longrightarrow>
         snd (add_meter env config mv a) =
           Continue (mv @ [(new_meter createMultical21 b)\<lparr>on_update := [OutputPrint, OneshotCheck]\<rparr>]))
    \<and> (\<forall>mva mvb. snd (add_meter env config mv a) = Continue mva
           \<and> snd (add_meter env config mv b) = Continue mvb \<longrightarrow>
         (\<forall>t st. dispatch env config t (st\<lparr>rt_meters := mva\<rparr>)
                = dispatch env config t (st\<lparr>rt_meters := mvb\<rparr>)))"
proof -
  have n: "new_meter createMultical21 a = new_meter createMultical21 b"
    using assms(3-5) by (simp add: new_meter_def)
  have s: "snd (add_meter env config mv a) = snd (add_meter env config mv b)"
    using assms n by (simp add: add_meter_eq)
  have ca: "CreateMeter createMultical21 (name b) (id_m b) (key b)
      \<in> set (fst (add_meter env config mv a))"
    using assms by (simp add: add_meter_eq)
  have cb: "CreateMeter createMultical21 (name b) (id_m b) (key b)
      \<in> set (fst (add_meter env config mv b))"
    using assms by (simp add: add_meter_eq)
  have k: "\<not> list_shell_envs config \<Longrightarrow> snd (add_meter env config mv a) =
      Continue (mv @ [(new_meter createMultical21 b)\<lparr>on_update := [OutputPrint, OneshotCheck]\<rparr>])"
    using assms n by (simp add: add_meter_eq)
  from s ca cb k show ?thesis by auto
qed

theorem flowiq3100_as_multical21_witness:
  "snd (add_meter (example_env []) (example_config ''rtlwmbus'' [flow]) [] flow)
     = snd (add_meter (example_env []) (example_config ''rtlwmbus'' [flow]) [] water)
   \<and> CreateMeter createMultical21 ''water'' ''12345678'' []
       \<in> set (fst (add_meter (example_env []) (example_config ''rtlwmbus'' [flow]) [] flow))"
proof -
  let ?env = "example_env [] :: (LinkMode, string) Env"
  have h: "toMeterType ?env (type flow) = FLOWIQ3100_METER"
    "toMeterType ?env (type water) = MULTICAL21_METER"
    "name flow = name water" "id_m flow = id_m water" "key flow = key water"
    by (simp_all add: example_defs)
  from flowiq3100_as_multical21 [OF h, of "example_config ''rtlwmbus'' [flow]" "[]"]
  show ?thesis by (simp add: water_def)
qed

end
